theory Spec2Isabelle
  imports Main "HOL-Library.Char_ord" "HOL-Library.List_Lexorder" "HOL-Library.Multiset"
    "HOL-Library.AList"
begin

section \<open>Outcomes and storage-engine failures\<close>

text \<open>
  The service in \<^verbatim>\<open>RecordingsService.svelte.dexie.ts\<close> never lets a storage failure
  escape as an exception: every engine call sits inside \<^verbatim>\<open>tryAsync({ try, mapErr })\<close>,
  which turns a rejected promise into a failure outcome built by \<^verbatim>\<open>DbServiceErr\<close>.
  What the engine threw is a \<open>cause\<close>; an outcome is a sum with the tagged error on
  the left (\<^verbatim>\<open>Err\<close>) and the data on the right (\<^verbatim>\<open>Ok\<close>).
\<close>

datatype cause =
    ConstraintError string
  | InvalidTableError string
  | DataError
  | VersionError
  | TypeError string
  | SchemaError string
  | EngineFault string

record db_service_error =
  err_title :: string
  err_description :: string
  err_error :: cause

definition DbServiceErr :: "string \<Rightarrow> string \<Rightarrow> cause \<Rightarrow> db_service_error" where
  "DbServiceErr t d e = \<lparr>err_title = t, err_description = d, err_error = e\<rparr>"

type_synonym 'a outcome = "db_service_error + 'a"

abbreviation Err :: "db_service_error \<Rightarrow> 'a outcome" where
  "Err \<equiv> Inl"

abbreviation Ok :: "'a \<Rightarrow> 'a outcome" where
  "Ok \<equiv> Inr"

definition tryAsync :: "(cause + 'a) \<Rightarrow> (cause \<Rightarrow> db_service_error) \<Rightarrow> 'a outcome" where
  "tryAsync try mapErr = (case try of Inl e \<Rightarrow> Err (mapErr e) | Inr v \<Rightarrow> Ok v)"

text \<open>
  An engine call can be rejected for reasons outside the data (quota, I/O, a blocked
  database). Each call site takes a \<open>cause option\<close>: \<open>Some c\<close> makes that call reject
  with \<open>c\<close> and change nothing, \<open>None\<close> lets it run.
\<close>

definition engine :: "cause option \<Rightarrow> (cause + 'a) \<Rightarrow> (cause + 'a)" where
  "engine fault call = (case fault of Some c \<Rightarrow> Inl c | None \<Rightarrow> call)"

section \<open>Tables\<close>

text \<open>
  An object store keeps one row per primary key, in key order. A table is the list of
  its rows sorted by key; \<open>key\<close> reads the primary key (the \<^verbatim>\<open>id\<close> property) of a row.
  Keys are strings, compared position by position (the order of \<open>string\<close> from
  \<open>List_Lexorder\<close> and \<open>Char_ord\<close>), which is also how JavaScript compares the
  ISO timestamps of \<^verbatim>\<open>createdAt\<close> and \<^verbatim>\<open>startedAt\<close>. \<^verbatim>\<open>add\<close> rejects a key that is
  already stored, \<^verbatim>\<open>put\<close> replaces the row of that key or inserts, \<^verbatim>\<open>delete\<close> and
  \<^verbatim>\<open>bulkDelete\<close> accept keys that are not stored.
\<close>

definition toArray :: "'r list \<Rightarrow> 'r list" where
  "toArray t = t"

definition count_rows :: "'r list \<Rightarrow> nat" where
  "count_rows t = length t"

definition get :: "('r \<Rightarrow> string) \<Rightarrow> string \<Rightarrow> 'r list \<Rightarrow> 'r option" where
  "get key k t = find (\<lambda>r. key r = k) t"

definition add :: "string \<Rightarrow> ('r \<Rightarrow> string) \<Rightarrow> 'r \<Rightarrow> 'r list \<Rightarrow> cause + 'r list" where
  "add name key r t =
     (if key r \<in> set (map key t) then Inl (ConstraintError name)
      else Inr (insort_key key r t))"

definition put :: "('r \<Rightarrow> string) \<Rightarrow> 'r \<Rightarrow> 'r list \<Rightarrow> 'r list" where
  "put key r t = insort_key key r (filter (\<lambda>x. key x \<noteq> key r) t)"

definition delete :: "('r \<Rightarrow> string) \<Rightarrow> string \<Rightarrow> 'r list \<Rightarrow> 'r list" where
  "delete key k t = filter (\<lambda>r. key r \<noteq> k) t"

definition bulkDelete :: "('r \<Rightarrow> string) \<Rightarrow> string list \<Rightarrow> 'r list \<Rightarrow> 'r list" where
  "bulkDelete key ks t = filter (\<lambda>r. key r \<notin> set ks) t"

text \<open>
  The database object has a table object only for a table that a registered version
  declares. For any other table the typed field of the class is \<^verbatim>\<open>undefined\<close>, and
  calling a method on it throws a \<^verbatim>\<open>TypeError\<close>. Such a field is an option, \<open>None\<close> for
  \<^verbatim>\<open>undefined\<close>.
\<close>

definition on_table :: "string \<Rightarrow> 'r list option \<Rightarrow> ('r list \<Rightarrow> cause + 'a) \<Rightarrow> cause + 'a" where
  "on_table name t call = (case t of None \<Rightarrow> Inl (TypeError name) | Some rows \<Rightarrow> call rows)"

text \<open>
  A schema gives each table its declaration, such as \<^verbatim>\<open>'&id, timestamp'\<close>: the primary
  key first, then the indexed properties, separated by commas, each with an optional
  mark in front. A query by a property (\<^verbatim>\<open>orderBy\<close>, \<^verbatim>\<open>where\<close>) walks the index on that
  property; when the table's declaration does not name the property, the query rejects.
\<close>

fun split_on :: "char \<Rightarrow> string \<Rightarrow> string list" where
  "split_on c [] = [[]]"
| "split_on c (x # xs) =
     (if x = c then [] # split_on c xs
      else (case split_on c xs of [] \<Rightarrow> [[x]] | w # ws \<Rightarrow> (x # w) # ws))"

definition schema_indexes :: "string \<Rightarrow> string list" where
  "schema_indexes spec =
     map (\<lambda>w. takeWhile (\<lambda>c. c \<noteq> CHR '' '') (dropWhile (\<lambda>c. c \<in> set ''&*+ '') w))
       (split_on (CHR '','') spec)"

definition indexed :: "(string \<times> string) list \<Rightarrow> string \<Rightarrow> string \<Rightarrow> bool" where
  "indexed sch table k =
     (case map_of sch table of None \<Rightarrow> False | Some spec \<Rightarrow> k \<in> set (schema_indexes spec))"

definition not_indexed :: "string \<Rightarrow> string \<Rightarrow> cause" where
  "not_indexed table k =
     SchemaError (''KeyPath '' @ k @ '' on object store '' @ table @ '' is not indexed'')"

text \<open>The invariant of an object store: keys are unique and rows come in key order.\<close>

definition table_ok :: "('r \<Rightarrow> string) \<Rightarrow> 'r list \<Rightarrow> bool" where
  "table_ok key t \<longleftrightarrow> distinct (map key t) \<and> sorted (map key t)"

section \<open>The v4 data model\<close>

datatype blob = Blob string

datatype transcription_status = UNPROCESSED | TRANSCRIBING | DONE

record recording =
  recording_id :: string
  recording_title :: string
  recording_subtitle :: string
  recording_transcribedText :: string
  recording_blob :: "blob option"
  recording_transcriptionStatus :: transcription_status
  recording_createdAt :: string
  recording_updatedAt :: string

datatype transformation_type = find_replace | prompt_transform

record transformation =
  transformation_id :: string
  transformation_name :: string
  transformation_description :: string
  transformation_createdAt :: string
  transformation_updatedAt :: string
  transformation_type :: transformation_type
  find_replace_findText :: string
  find_replace_replaceText :: string
  find_replace_useRegex :: bool
  prompt_transform_model :: string
  prompt_transform_systemPromptTemplate :: string
  prompt_transform_userPromptTemplate :: string

record pipeline_step =
  transformationId :: string
  enabled :: bool

record pipeline =
  pipeline_id :: string
  pipeline_title :: string
  pipeline_description :: string
  pipeline_createdAt :: string
  pipeline_updatedAt :: string
  pipeline_transformations :: "pipeline_step list"

datatype run_status = running | completed | failed

record pipeline_run =
  run_id :: string
  run_pipelineId :: string
  run_recordingId :: string
  run_input :: string
  run_status :: run_status
  run_startedAt :: string
  run_completedAt :: "string option"
  run_error :: "string option"
  run_output :: "string option"

record transformation_result =
  result_id :: string
  result_pipelineRunId :: string
  result_transformationId :: string
  result_status :: run_status
  result_startedAt :: string
  result_completedAt :: "string option"
  result_error :: "string option"
  result_output :: "string option"

text \<open>
  \<^verbatim>\<open>RecordingsDatabase\<close> declares five typed table fields. The field \<^verbatim>\<open>recordings\<close>
  is a table on every database the constructor builds, since the last registered
  version declares it. The other four fields are tables only if a registered version
  declares them, and \<^verbatim>\<open>undefined\<close> otherwise; the constructor below decides that from
  the versions it registers. The database object also carries the schema of its
  tables, \<open>db_schema\<close>. The service closes over the database \<^verbatim>\<open>db\<close> and over the reactive
  list \<^verbatim>\<open>recordings\<close> (a \<^verbatim>\<open>$state\<close>), here \<open>recordings_state\<close>.
\<close>

record database =
  recordings :: "recording list"
  pipelines :: "pipeline list option"
  transformations :: "transformation list option"
  pipelineRuns :: "pipeline_run list option"
  transformationResults :: "transformation_result list option"
  db_schema :: "(string \<times> string) list"

record service =
  db :: database
  recordings_state :: "recording list"

section \<open>Recordings\<close>

definition getRecording :: "cause option \<Rightarrow> string \<Rightarrow> service \<Rightarrow> recording option outcome" where
  "getRecording fault ident s =
     tryAsync (engine fault (Inr (get recording_id ident (recordings (db s)))))
       (DbServiceErr ''Error getting recording from Dexie'' ''Please try again'')"

definition addRecording :: "cause option \<Rightarrow> recording \<Rightarrow> service \<Rightarrow> unit outcome \<times> service" where
  "addRecording fault r s =
     (case tryAsync (engine fault (add ''recordings'' recording_id r (recordings (db s))))
             (DbServiceErr ''Error adding recording to Dexie'' ''Please try again'') of
        Inl e \<Rightarrow> (Err e, s)
      | Inr t \<Rightarrow> (Ok (), s\<lparr>db := (db s)\<lparr>recordings := t\<rparr>,
                           recordings_state := recordings_state s @ [r]\<rparr>))"

definition updateRecording :: "cause option \<Rightarrow> recording \<Rightarrow> service \<Rightarrow> unit outcome \<times> service" where
  "updateRecording fault r s =
     (case tryAsync (engine fault (Inr (put recording_id r (recordings (db s)))))
             (DbServiceErr ''Error updating recording in Dexie'' ''Please try again'') of
        Inl e \<Rightarrow> (Err e, s)
      | Inr t \<Rightarrow> (Ok (), s\<lparr>db := (db s)\<lparr>recordings := t\<rparr>,
                           recordings_state :=
                             map (\<lambda>x. if recording_id x = recording_id r then r else x)
                               (recordings_state s)\<rparr>))"

definition deleteRecording :: "cause option \<Rightarrow> recording \<Rightarrow> service \<Rightarrow> unit outcome \<times> service" where
  "deleteRecording fault r s =
     (case tryAsync (engine fault (Inr (delete recording_id (recording_id r) (recordings (db s)))))
             (DbServiceErr ''Error deleting recording from Dexie'' ''Please try again'') of
        Inl e \<Rightarrow> (Err e, s)
      | Inr t \<Rightarrow> (Ok (), s\<lparr>db := (db s)\<lparr>recordings := t\<rparr>,
                           recordings_state :=
                             filter (\<lambda>x. recording_id x \<noteq> recording_id r) (recordings_state s)\<rparr>))"

definition deleteRecordings :: "cause option \<Rightarrow> recording list \<Rightarrow> service \<Rightarrow> unit outcome \<times> service" where
  "deleteRecordings fault recordingsToDelete s =
     (let ids = map recording_id recordingsToDelete in
      case tryAsync (engine fault (Inr (bulkDelete recording_id ids (recordings (db s)))))
             (DbServiceErr ''Error deleting recordings from Dexie'' ''Please try again'') of
        Inl e \<Rightarrow> (Err e, s)
      | Inr t \<Rightarrow> (Ok (), s\<lparr>db := (db s)\<lparr>recordings := t\<rparr>\<rparr>))"

section \<open>Pipelines and transformations\<close>

text \<open>
  \<^verbatim>\<open>db.transaction('rw', tables, body)\<close> takes the table objects it spans and refuses
  an argument that is not a table (\<^verbatim>\<open>undefined\<close>) before anything runs. It runs \<open>body\<close>
  on the named tables only: a table outside the scope cannot be touched from inside,
  and when the body rejects, the engine discards every write the body made and rejects
  with the same cause. The commit that follows a body that went through can be
  rejected too (\<open>fcommit\<close>), with the same effect.
\<close>

definition table_handle :: "string \<Rightarrow> 'r list option \<Rightarrow> string option" where
  "table_handle name t = (case t of None \<Rightarrow> None | Some rows \<Rightarrow> Some name)"

definition in_scope :: "string list \<Rightarrow> string \<Rightarrow> (cause + 'a) \<Rightarrow> (cause + 'a)" where
  "in_scope scope name call =
     (if name \<in> set scope then call else Inl (InvalidTableError name))"

definition transaction ::
  "string option list \<Rightarrow> (string list \<Rightarrow> database \<Rightarrow> cause + database) \<Rightarrow> cause option
     \<Rightarrow> database \<Rightarrow> (cause + unit) \<times> database" where
  "transaction tables body fcommit d =
     (if None \<in> set tables then (Inl (TypeError ''Invalid table argument''), d)
      else
        (case body (List.map_filter (\<lambda>t. t) tables) d of
           Inl e \<Rightarrow> (Inl e, d)
         | Inr d' \<Rightarrow> (case fcommit of Some c \<Rightarrow> (Inl c, d) | None \<Rightarrow> (Inr (), d'))))"

definition getAllPipelines :: "cause option \<Rightarrow> service \<Rightarrow> pipeline list outcome" where
  "getAllPipelines fault s =
     tryAsync (on_table ''pipelines'' (pipelines (db s)) (\<lambda>t. engine fault (Inr (toArray t))))
       (DbServiceErr ''Error getting all pipelines from Dexie'' ''Please try again'')"

definition addPipeline :: "cause option \<Rightarrow> pipeline \<Rightarrow> service \<Rightarrow> unit outcome \<times> service" where
  "addPipeline fault p s =
     (case tryAsync (on_table ''pipelines'' (pipelines (db s))
                       (\<lambda>t. engine fault (add ''pipelines'' pipeline_id p t)))
             (DbServiceErr ''Error adding pipeline to Dexie'' ''Please try again'') of
        Inl e \<Rightarrow> (Err e, s)
      | Inr t \<Rightarrow> (Ok (), s\<lparr>db := (db s)\<lparr>pipelines := Some t\<rparr>\<rparr>))"

definition updatePipeline :: "cause option \<Rightarrow> pipeline \<Rightarrow> service \<Rightarrow> unit outcome \<times> service" where
  "updatePipeline fault p s =
     (case tryAsync (on_table ''pipelines'' (pipelines (db s))
                       (\<lambda>t. engine fault (Inr (put pipeline_id p t))))
             (DbServiceErr ''Error updating pipeline in Dexie'' ''Please try again'') of
        Inl e \<Rightarrow> (Err e, s)
      | Inr t \<Rightarrow> (Ok (), s\<lparr>db := (db s)\<lparr>pipelines := Some t\<rparr>\<rparr>))"

definition deletePipeline :: "cause option \<Rightarrow> pipeline \<Rightarrow> service \<Rightarrow> unit outcome \<times> service" where
  "deletePipeline fault p s =
     (case tryAsync (on_table ''pipelines'' (pipelines (db s))
                       (\<lambda>t. engine fault (Inr (delete pipeline_id (pipeline_id p) t))))
             (DbServiceErr ''Error deleting pipeline from Dexie'' ''Please try again'') of
        Inl e \<Rightarrow> (Err e, s)
      | Inr t \<Rightarrow> (Ok (), s\<lparr>db := (db s)\<lparr>pipelines := Some t\<rparr>\<rparr>))"

text \<open>
  The cascade delete passes \<^verbatim>\<open>[db.pipelines, db.transformations]\<close> to the transaction
  and makes two engine calls inside it; \<open>f1\<close> is the fault of \<^verbatim>\<open>db.pipelines.delete\<close>,
  \<open>f2\<close> the fault of \<^verbatim>\<open>db.transformations.bulkDelete\<close> and \<open>f3\<close> the fault of the
  commit.
\<close>

definition deletePipelineWithAssociatedTransformations ::
  "cause option \<Rightarrow> cause option \<Rightarrow> cause option \<Rightarrow> pipeline \<Rightarrow> service
     \<Rightarrow> unit outcome \<times> service" where
  "deletePipelineWithAssociatedTransformations f1 f2 f3 p s =
     (let (r, d') =
        transaction [table_handle ''pipelines'' (pipelines (db s)),
                     table_handle ''transformations'' (transformations (db s))]
          (\<lambda>scope d.
             case on_table ''pipelines'' (pipelines d)
                    (\<lambda>t. engine f1 (in_scope scope ''pipelines''
                            (Inr (delete pipeline_id (pipeline_id p) t)))) of
               Inl e \<Rightarrow> Inl e
             | Inr ps \<Rightarrow>
                 (let transformationIds = map transformationId (pipeline_transformations p) in
                  case on_table ''transformations'' (transformations d)
                         (\<lambda>t. engine f2 (in_scope scope ''transformations''
                                 (Inr (bulkDelete transformation_id transformationIds t)))) of
                    Inl e \<Rightarrow> Inl e
                  | Inr ts \<Rightarrow> Inr (d\<lparr>pipelines := Some ps, transformations := Some ts\<rparr>)))
          f3 (db s)
      in (tryAsync r (DbServiceErr ''Error deleting pipeline from Dexie'' ''Please try again''),
          s\<lparr>db := d'\<rparr>))"

definition updateTransformation ::
  "cause option \<Rightarrow> transformation \<Rightarrow> service \<Rightarrow> unit outcome \<times> service" where
  "updateTransformation fault t s =
     (case tryAsync (on_table ''transformations'' (transformations (db s))
                       (\<lambda>ts. engine fault (Inr (put transformation_id t ts))))
             (DbServiceErr ''Error updating transformation in Dexie'' ''Please try again'') of
        Inl e \<Rightarrow> (Err e, s)
      | Inr ts \<Rightarrow> (Ok (), s\<lparr>db := (db s)\<lparr>transformations := Some ts\<rparr>\<rparr>))"

section \<open>Pipeline runs\<close>

text \<open>
  \<^verbatim>\<open>startPipelineRun\<close> reads the clock (\<^verbatim>\<open>new Date().toISOString()\<close>) and draws an id
  (\<^verbatim>\<open>nanoid()\<close>); both are inputs of the model, \<open>now\<close> and \<open>newId\<close>.
\<close>

definition startPipelineRun ::
  "cause option \<Rightarrow> string \<Rightarrow> string \<Rightarrow> pipeline \<Rightarrow> recording \<Rightarrow> service
     \<Rightarrow> unit outcome \<times> service" where
  "startPipelineRun fault now newId p r s =
     (let newPipelineRun =
        \<lparr>run_id = newId,
         run_pipelineId = pipeline_id p,
         run_recordingId = recording_id r,
         run_input = recording_transcribedText r,
         run_status = running,
         run_startedAt = now,
         run_completedAt = None,
         run_error = None,
         run_output = None\<rparr>
      in case tryAsync (on_table ''pipelineRuns'' (pipelineRuns (db s))
                          (\<lambda>t. engine fault (add ''pipelineRuns'' run_id newPipelineRun t)))
                (DbServiceErr ''Error starting pipeline run in Dexie'' ''Please try again'') of
           Inl e \<Rightarrow> (Err e, s)
         | Inr t \<Rightarrow> (Ok (), s\<lparr>db := (db s)\<lparr>pipelineRuns := Some t\<rparr>\<rparr>))"

definition updatePipelineRun ::
  "cause option \<Rightarrow> pipeline_run \<Rightarrow> service \<Rightarrow> unit outcome \<times> service" where
  "updatePipelineRun fault pipelineRun s =
     (case tryAsync (on_table ''pipelineRuns'' (pipelineRuns (db s))
                       (\<lambda>t. engine fault (Inr (put run_id pipelineRun t))))
             (DbServiceErr ''Error updating pipeline run in Dexie'' ''Please try again'') of
        Inl e \<Rightarrow> (Err e, s)
      | Inr t \<Rightarrow> (Ok (), s\<lparr>db := (db s)\<lparr>pipelineRuns := Some t\<rparr>\<rparr>))"

text \<open>
  A collection is a range of an index together with a reading direction.
  \<^verbatim>\<open>where(k).equals(v)\<close> selects the rows whose \<open>k\<close> is \<open>v\<close> and needs the index on
  \<open>k\<close>; among equal index keys the index orders by primary key, which is the order of
  the table. \<^verbatim>\<open>reverse()\<close>
  flips the direction. \<^verbatim>\<open>sortBy(k)\<close> reads the collection into an array in its
  direction and sorts the array with a stable sort, ascending by \<open>k\<close> when the
  direction is forward and descending when it is backward.
\<close>

datatype direction = forward | backward

record 'r collection =
  coll_rows :: "'r list"
  coll_dir :: direction

definition where_equals ::
  "(string \<times> string) list \<Rightarrow> string \<Rightarrow> string \<Rightarrow> ('r \<Rightarrow> string) \<Rightarrow> string \<Rightarrow> 'r list
     \<Rightarrow> cause + 'r collection" where
  "where_equals sch table name k v t =
     (if indexed sch table name
      then Inr \<lparr>coll_rows = filter (\<lambda>r. k r = v) t, coll_dir = forward\<rparr>
      else Inl (not_indexed table name))"

definition reverse :: "'r collection \<Rightarrow> 'r collection" where
  "reverse c = c\<lparr>coll_dir := (case coll_dir c of forward \<Rightarrow> backward | backward \<Rightarrow> forward)\<rparr>"

definition coll_toArray :: "'r collection \<Rightarrow> 'r list" where
  "coll_toArray c = (case coll_dir c of forward \<Rightarrow> coll_rows c | backward \<Rightarrow> rev (coll_rows c))"

definition sortBy :: "('r \<Rightarrow> string) \<Rightarrow> 'r collection \<Rightarrow> 'r list" where
  "sortBy k c =
     (let a = coll_toArray c in
      case coll_dir c of
        forward \<Rightarrow> sort_key k a
      | backward \<Rightarrow> rev (sort_key k (rev a)))"

definition getPipelineRunsByRecording ::
  "cause option \<Rightarrow> recording \<Rightarrow> service \<Rightarrow> pipeline_run list outcome" where
  "getPipelineRunsByRecording fault r s =
     tryAsync
       (on_table ''pipelineRuns'' (pipelineRuns (db s))
          (\<lambda>t. case where_equals (db_schema (db s)) ''pipelineRuns'' ''recordingId''
                      run_recordingId (recording_id r) t of
                 Inl e \<Rightarrow> Inl e
               | Inr c \<Rightarrow> engine fault (Inr (sortBy run_startedAt (reverse c)))))
       (DbServiceErr ''Error getting pipeline runs from Dexie'' ''Please try again'')"

section \<open>Retention\<close>

text \<open>
  \<^verbatim>\<open>Number.parseInt\<close> with no radix: leading white space is skipped, a sign is read, a
  \<^verbatim>\<open>0x\<close> prefix selects radix 16, and the longest run of digits is the value; with no
  digit the result is \<^verbatim>\<open>NaN\<close>. White space is what JavaScript skips among the
  characters a \<open>char\<close> can hold (the ASCII ones and the no-break space). Every comparison with \<^verbatim>\<open>NaN\<close> is false and every difference with it is
  \<^verbatim>\<open>NaN\<close>. Counts are far below the range where a JavaScript
  number stops being an exact integer, so numbers are integers here.
\<close>

datatype number = NaN | Num int

definition isWhiteSpace :: "char \<Rightarrow> bool" where
  "isWhiteSpace c \<longleftrightarrow> (of_char c :: nat) \<in> set [32, 9, 10, 11, 12, 13, 160]"

definition digitValue :: "char \<Rightarrow> nat option" where
  "digitValue c =
     (let n = (of_char c :: nat) in
      if 48 \<le> n \<and> n \<le> 57 then Some (n - 48)
      else if 97 \<le> n \<and> n \<le> 122 then Some (n - 87)
      else if 65 \<le> n \<and> n \<le> 90 then Some (n - 55)
      else None)"

fun radixDigits :: "nat \<Rightarrow> string \<Rightarrow> nat list" where
  "radixDigits R [] = []"
| "radixDigits R (c # cs) =
     (case digitValue c of
        Some d \<Rightarrow> if d < R then d # radixDigits R cs else []
      | None \<Rightarrow> [])"

definition mathInt :: "nat \<Rightarrow> nat list \<Rightarrow> nat" where
  "mathInt R ds = foldl (\<lambda>acc d. acc * R + d) 0 ds"

definition parseInt :: "string \<Rightarrow> number" where
  "parseInt inputString =
     (let S = dropWhile isWhiteSpace inputString;
          sign = (if take 1 S = ''-'' then - 1 else 1);
          S1 = (if take 1 S = ''+'' \<or> take 1 S = ''-'' then drop 1 S else S);
          hex = (take 2 S1 = ''0x'' \<or> take 2 S1 = ''0X'');
          R = (if hex then 16 else 10);
          Z = radixDigits R (if hex then drop 2 S1 else S1)
      in if Z = [] then NaN else Num (sign * int (mathInt R Z)))"

definition num_le :: "nat \<Rightarrow> number \<Rightarrow> bool" where
  "num_le c n = (case n of NaN \<Rightarrow> False | Num k \<Rightarrow> int c \<le> k)"

definition num_minus :: "nat \<Rightarrow> number \<Rightarrow> number" where
  "num_minus c n = (case n of NaN \<Rightarrow> NaN | Num k \<Rightarrow> Num (int c - k))"

text \<open>
  \<^verbatim>\<open>orderBy(k)\<close> walks the index on \<open>k\<close>: ascending by \<open>k\<close>, rows with equal \<open>k\<close> in
  primary-key order; without an index on \<open>k\<close> in the table's declaration the query
  rejects. \<^verbatim>\<open>limit(n)\<close> keeps the first \<open>n\<close> rows (none when \<open>n\<close> is not a positive
  number) and \<^verbatim>\<open>primaryKeys()\<close> returns their keys.
\<close>

definition orderBy ::
  "(string \<times> string) list \<Rightarrow> string \<Rightarrow> string \<Rightarrow> ('r \<Rightarrow> string) \<Rightarrow> 'r list \<Rightarrow> cause + 'r list" where
  "orderBy sch table name k t =
     (if indexed sch table name then Inr (sort_key k t) else Inl (not_indexed table name))"

definition limit :: "number \<Rightarrow> 'r list \<Rightarrow> 'r list" where
  "limit n rows = (case n of NaN \<Rightarrow> [] | Num k \<Rightarrow> take (nat k) rows)"

definition primaryKeys :: "('r \<Rightarrow> string) \<Rightarrow> 'r list \<Rightarrow> string list" where
  "primaryKeys key rows = map key rows"

datatype retention_strategy = keep_forever | limit_count

record settings =
  database_recordingRetentionStrategy :: retention_strategy
  database_maxRecordingCount :: string

text \<open>
  The limit-count branch makes three engine calls: \<open>fc\<close> is the fault of \<^verbatim>\<open>count()\<close>,
  \<open>fk\<close> of the key query and \<open>fd\<close> of \<^verbatim>\<open>bulkDelete\<close>.
\<close>

definition cleanupExpiredRecordings ::
  "cause option \<Rightarrow> cause option \<Rightarrow> cause option \<Rightarrow> settings \<Rightarrow> service
     \<Rightarrow> unit outcome \<times> service" where
  "cleanupExpiredRecordings fc fk fd st s =
     (case database_recordingRetentionStrategy st of
        keep_forever \<Rightarrow> (Ok (), s)
      | limit_count \<Rightarrow>
          (case tryAsync (engine fc (Inr (count_rows (recordings (db s)))))
                  (DbServiceErr ''Unable to get recording count while cleaning up old recordings''
                     ''Please try again'') of
             Inl e \<Rightarrow> (Err e, s)
           | Inr cnt \<Rightarrow>
               if cnt = 0 then (Ok (), s)
               else
                 (let maxCount = parseInt (database_maxRecordingCount st) in
                  if num_le cnt maxCount then (Ok (), s)
                  else
                    (case tryAsync
                            (case (case orderBy (db_schema (db s)) ''recordings'' ''createdAt''
                                          recording_createdAt (recordings (db s)) of
                                     Inl e \<Rightarrow> Inl e
                                   | Inr ordered \<Rightarrow>
                                       engine fk
                                         (Inr (primaryKeys recording_id
                                                 (limit (num_minus cnt maxCount) ordered)))) of
                               Inl e \<Rightarrow> Inl e
                             | Inr idsToDelete \<Rightarrow>
                                 engine fd (Inr (bulkDelete recording_id idsToDelete
                                                   (recordings (db s)))))
                            (DbServiceErr ''Unable to clean up old recordings''
                               ''Some old recordings could not be deleted'') of
                       Inl e \<Rightarrow> (Err e, s)
                     | Inr t \<Rightarrow> (Ok (), s\<lparr>db := (db s)\<lparr>recordings := t\<rparr>\<rparr>)))))"

section \<open>Schema versions and their upgrades\<close>

text \<open>
  Rows of the older schema generations differ in shape, so below the typed service a
  stored object is a list of properties. Reading a property that is absent yields
  \<^verbatim>\<open>undefined\<close>.
\<close>

datatype jsval = JString string | JBlob blob | JUndefined

type_synonym row = "(string \<times> jsval) list"

definition get_prop :: "row \<Rightarrow> string \<Rightarrow> jsval" where
  "get_prop r k = (case map_of r k of Some v \<Rightarrow> v | None \<Rightarrow> JUndefined)"

definition has_prop :: "row \<Rightarrow> string \<Rightarrow> bool" where
  "has_prop r k \<longleftrightarrow> map_of r k \<noteq> None"

definition row_key :: "row \<Rightarrow> string option" where
  "row_key r = (case get_prop r ''id'' of JString k \<Rightarrow> Some k | _ \<Rightarrow> None)"

definition row_id :: "row \<Rightarrow> string" where
  "row_id r = (case row_key r of Some k \<Rightarrow> k | None \<Rightarrow> [])"

text \<open>
  The upgrade transaction \<^verbatim>\<open>tx\<close> sees tables by name. \<^verbatim>\<open>tx.table(n).toArray()\<close>
  rejects when the transaction has no table \<open>n\<close>. \<^verbatim>\<open>bulkAdd\<close> adds the rows one by
  one, each at its place in key order; a row without a key or with a key already stored
  is not added, and when any row was refused the call rejects, the other rows staying
  written in the transaction. An upgrade runs with the tables the version creates
  already there and the tables it drops still there.
\<close>

type_synonym tx = "(string \<times> row list) list"

datatype site = Body nat | Dump string

type_synonym faults = "site \<Rightarrow> cause option"

definition tx_toArray :: "cause option \<Rightarrow> tx \<Rightarrow> string \<Rightarrow> cause + row list" where
  "tx_toArray fault tx name =
     engine fault
       (case map_of tx name of
          None \<Rightarrow> Inl (InvalidTableError name)
        | Some rows \<Rightarrow> Inr rows)"

fun bulkAdd_rows :: "row list \<Rightarrow> row list \<Rightarrow> row list \<times> nat" where
  "bulkAdd_rows [] t = (t, 0)"
| "bulkAdd_rows (r # rs) t =
     (if row_key r = None \<or> row_id r \<in> set (map row_id t)
      then (let (t', n) = bulkAdd_rows rs t in (t', Suc n))
      else bulkAdd_rows rs (insort_key row_id r t))"

definition tx_bulkAdd :: "cause option \<Rightarrow> tx \<Rightarrow> string \<Rightarrow> row list \<Rightarrow> (cause \<times> tx) + tx" where
  "tx_bulkAdd fault tx name rows =
     (case fault of
        Some c \<Rightarrow> Inl (c, tx)
      | None \<Rightarrow>
          (case map_of tx name of
             None \<Rightarrow> Inl (InvalidTableError name, tx)
           | Some t \<Rightarrow>
               (let (t', n) = bulkAdd_rows rows t;
                    tx' = AList.update name t' tx
                in if n = 0 then Inr tx' else Inl (ConstraintError name, tx'))))"

text \<open>
  \<^verbatim>\<open>handleUpgradeError\<close>: dump the three tables, open the dialog, re-throw. The dialog's
  content is the JSON text of the dump; the model keeps the dumped value itself.
  Opening the dialog is the effect of the handler, returned as a list of dialogs.
\<close>

record dump_state =
  dump_version :: nat
  dump_tables :: "(string \<times> row list) list"

record dialog =
  dialog_title :: string
  dialog_description :: string
  dialog_content :: dump_state
  dialog_buttons :: "string list"

fun show_nat :: "nat \<Rightarrow> string" where
  "show_nat n =
     (if n < 10 then [char_of (48 + n)]
      else show_nat (n div 10) @ [char_of (48 + n mod 10)])"

declare show_nat.simps [simp del]

definition DB_NAME :: string where
  "DB_NAME = ''RecordingDB''"

definition DB_VERSION :: nat where
  "DB_VERSION = 4"

definition DUMP_TABLE_NAMES :: "string list" where
  "DUMP_TABLE_NAMES = [''recordings'', ''recordingMetadata'', ''recordingBlobs'']"

definition dumpTable :: "faults \<Rightarrow> tx \<Rightarrow> string \<Rightarrow> row list" where
  "dumpTable flt tx tableName =
     (case tx_toArray (flt (Dump tableName)) tx tableName of
        Inr contents \<Rightarrow> contents
      | Inl error \<Rightarrow> [])"

definition handleUpgradeError ::
  "faults \<Rightarrow> tx \<Rightarrow> nat \<Rightarrow> cause \<Rightarrow> dialog list \<times> (cause + tx)" where
  "handleUpgradeError flt tx version error =
     (let dumps = map (dumpTable flt tx) DUMP_TABLE_NAMES;
          dumpState = \<lparr>dump_version = version,
                       dump_tables = map (\<lambda>i. (DUMP_TABLE_NAMES ! i, dumps ! i))
                                       [0 ..< length DUMP_TABLE_NAMES]\<rparr>
      in ([\<lparr>dialog_title = ''Failed to upgrade IndexedDb Database to version '' @ show_nat version,
            dialog_description =
              ''Please download the database dump and delete the database to start fresh.'',
            dialog_content = dumpState,
            dialog_buttons = [''Delete Database'', ''Download Database Dump'']\<rparr>],
          Inl error))"

text \<open>
  The body of the v2 upgrade (the \<^verbatim>\<open>try\<close> block): split every old recording into a
  metadata row (the recording without \<^verbatim>\<open>blob\<close>) and a blob row. A body that rejects
  hands its cause and the transaction as it stands to the \<^verbatim>\<open>catch\<close> block.
\<close>

definition upgrade_v2_body :: "faults \<Rightarrow> tx \<Rightarrow> (cause \<times> tx) + tx" where
  "upgrade_v2_body flt tx =
     (case tx_toArray (flt (Body 0)) tx ''recordings'' of
        Inl e \<Rightarrow> Inl (e, tx)
      | Inr oldRecordings \<Rightarrow>
          (let metadata = map (\<lambda>recording. filter (\<lambda>(k, v). k \<noteq> ''blob'') recording) oldRecordings;
               blobs = map (\<lambda>r. [(''id'', get_prop r ''id''), (''blob'', get_prop r ''blob'')]) oldRecordings
           in case tx_bulkAdd (flt (Body 1)) tx ''recordingMetadata'' metadata of
                Inl x \<Rightarrow> Inl x
              | Inr tx1 \<Rightarrow> tx_bulkAdd (flt (Body 2)) tx1 ''recordingBlobs'' blobs))"

definition upgrade_v2 :: "faults \<Rightarrow> tx \<Rightarrow> dialog list \<times> (cause + tx)" where
  "upgrade_v2 flt tx =
     (case upgrade_v2_body flt tx of
        Inr tx' \<Rightarrow> ([], Inr tx')
      | Inl (error, tx') \<Rightarrow> handleUpgradeError flt tx' 2 error)"

text \<open>
  The body of the v3 upgrade: give every metadata row the blob of the blob row with the
  same id (\<^verbatim>\<open>undefined\<close> when there is none) and write the merged rows to
  \<^verbatim>\<open>recordings\<close>.
\<close>

definition upgrade_v3_body :: "faults \<Rightarrow> tx \<Rightarrow> (cause \<times> tx) + tx" where
  "upgrade_v3_body flt tx =
     (case tx_toArray (flt (Body 0)) tx ''recordingMetadata'' of
        Inl e \<Rightarrow> Inl (e, tx)
      | Inr metadata \<Rightarrow>
          (case tx_toArray (flt (Body 1)) tx ''recordingBlobs'' of
             Inl e \<Rightarrow> Inl (e, tx)
           | Inr blobs \<Rightarrow>
               (let mergedRecordings =
                      map (\<lambda>record.
                             (let blob = (case find (\<lambda>b. get_prop b ''id'' = get_prop record ''id'') blobs of
                                            Some b \<Rightarrow> get_prop b ''blob''
                                          | None \<Rightarrow> JUndefined)
                              in AList.update ''blob'' blob record))
                        metadata
                in tx_bulkAdd (flt (Body 2)) tx ''recordings'' mergedRecordings)))"

definition upgrade_v3 :: "faults \<Rightarrow> tx \<Rightarrow> dialog list \<times> (cause + tx)" where
  "upgrade_v3 flt tx =
     (case upgrade_v3_body flt tx of
        Inr tx' \<Rightarrow> ([], Inr tx')
      | Inl (error, tx') \<Rightarrow> handleUpgradeError flt tx' 3 error)"

text \<open>
  The constructor of \<^verbatim>\<open>RecordingsDatabase\<close> registers three versions; a table mapped
  to \<open>None\<close> (\<^verbatim>\<open>null\<close>) is dropped by that version.
\<close>

record version_decl =
  decl_version :: nat
  decl_stores :: "(string \<times> string option) list"
  decl_upgrade :: "(faults \<Rightarrow> tx \<Rightarrow> dialog list \<times> (cause + tx)) option"

definition version_1 :: version_decl where
  "version_1 =
     \<lparr>decl_version = 1,
      decl_stores = [(''recordings'', Some ''&id, timestamp'')],
      decl_upgrade = None\<rparr>"

definition version_2 :: version_decl where
  "version_2 =
     \<lparr>decl_version = 2,
      decl_stores = [(''recordings'', None),
                     (''recordingMetadata'', Some ''&id, timestamp''),
                     (''recordingBlobs'', Some ''&id'')],
      decl_upgrade = Some upgrade_v2\<rparr>"

definition version_3 :: version_decl where
  "version_3 =
     \<lparr>decl_version = 3,
      decl_stores = [(''recordings'', Some ''&id, timestamp''),
                     (''recordingMetadata'', None),
                     (''recordingBlobs'', None)],
      decl_upgrade = Some upgrade_v3\<rparr>"

definition versions :: "version_decl list" where
  "versions = [version_1, version_2, version_3]"

text \<open>
  Opening a database: the engine takes the registered versions above the stored one in
  increasing order, all inside one version-change transaction. For each it creates
  the tables the version adds, runs the version's upgrade (which still sees the tables
  the version drops), then drops those. When an upgrade rejects, the transaction is
  aborted: the open fails and the stored database is what it was. A database newer than
  every registered version is refused. A database that does not exist yet (version 0)
  gets the tables of the last registered version without any upgrade being run.
\<close>

record idb =
  idb_version :: nat
  idb_tables :: tx

definition create_tables :: "(string \<times> string option) list \<Rightarrow> tx \<Rightarrow> tx" where
  "create_tables stores tx =
     fold (\<lambda>(name, schema) tx.
             if schema = None \<or> map_of tx name \<noteq> None then tx else tx @ [(name, [])])
       stores tx"

definition drop_tables :: "(string \<times> string option) list \<Rightarrow> tx \<Rightarrow> tx" where
  "drop_tables stores tx =
     fold (\<lambda>(name, schema) tx. if schema = None then AList.delete name tx else tx) stores tx"

fun run_versions :: "(nat \<Rightarrow> faults) \<Rightarrow> version_decl list \<Rightarrow> tx \<Rightarrow> dialog list \<times> (cause + tx)" where
  "run_versions flt [] tx = ([], Inr tx)"
| "run_versions flt (v # vs) tx =
     (let tx1 = create_tables (decl_stores v) tx in
      case (case decl_upgrade v of
              None \<Rightarrow> ([], Inr tx1)
            | Some upgrade \<Rightarrow> upgrade (flt (decl_version v)) tx1) of
        (ds, Inl e) \<Rightarrow> (ds, Inl e)
      | (ds, Inr tx2) \<Rightarrow>
          (let (ds', r) = run_versions flt vs (drop_tables (decl_stores v) tx2)
           in (ds @ ds', r)))"

definition target_version :: "version_decl list \<Rightarrow> nat" where
  "target_version vs = fold max (map decl_version vs) 0"

definition latest_schema :: "version_decl list \<Rightarrow> tx \<Rightarrow> tx" where
  "latest_schema vs tx =
     fold (\<lambda>v tx. drop_tables (decl_stores v) (create_tables (decl_stores v) tx)) vs tx"

definition open_db :: "(nat \<Rightarrow> faults) \<Rightarrow> idb \<Rightarrow> dialog list \<times> (cause + unit) \<times> idb" where
  "open_db flt s =
     (if target_version versions < idb_version s then ([], Inl VersionError, s)
      else if idb_version s = 0 then
        ([], Inr (),
         \<lparr>idb_version = target_version versions,
          idb_tables = latest_schema (sort_key decl_version versions) (idb_tables s)\<rparr>)
      else
        (case run_versions flt
                (filter (\<lambda>v. idb_version s < decl_version v) (sort_key decl_version versions))
                (idb_tables s) of
           (ds, Inl e) \<Rightarrow> (ds, Inl e, s)
         | (ds, Inr tx') \<Rightarrow>
             (ds, Inr (), \<lparr>idb_version = target_version versions, idb_tables = tx'\<rparr>)))"

text \<open>
  The schema of the database object is the one of the last registered version: each
  version's declarations replace or drop what the versions before it declared. The
  constructor gives the database object a table for each table of that schema and
  leaves every other typed field \<^verbatim>\<open>undefined\<close>; \<open>stored\<close> is what the recordings
  table holds when the service starts.
\<close>

definition registered_schema :: "version_decl list \<Rightarrow> (string \<times> string) list" where
  "registered_schema vs =
     fold (\<lambda>v sch.
             fold (\<lambda>(name, decl) sch.
                     case decl of
                       None \<Rightarrow> AList.delete name sch
                     | Some spec \<Rightarrow> AList.update name spec sch)
               (decl_stores v) sch)
       (sort_key decl_version vs) []"

definition table_property :: "(string \<times> string) list \<Rightarrow> string \<Rightarrow> 'r list option" where
  "table_property sch name = (case map_of sch name of None \<Rightarrow> None | Some spec \<Rightarrow> Some [])"

definition RecordingsDatabase :: "recording list \<Rightarrow> database" where
  "RecordingsDatabase stored =
     (let sch = registered_schema versions in
      \<lparr>recordings = stored,
       pipelines = table_property sch ''pipelines'',
       transformations = table_property sch ''transformations'',
       pipelineRuns = table_property sch ''pipelineRuns'',
       transformationResults = table_property sch ''transformationResults'',
       db_schema = sch\<rparr>)"

text \<open>
  \<^verbatim>\<open>createRecordingsIndexedDbService\<close> starts with an empty mirror, builds the database
  and calls \<^verbatim>\<open>syncDbToRecordingsState\<close>, which copies the table into the mirror when the
  read is accepted and leaves the mirror as it is (showing a toast) when it is not.
\<close>

definition syncDbToRecordingsState :: "cause option \<Rightarrow> service \<Rightarrow> service" where
  "syncDbToRecordingsState fault s =
     (case tryAsync (engine fault (Inr (toArray (recordings (db s)))))
             (DbServiceErr ''Error getting recordings from Dexie'' ''Please try again'') of
        Inl e \<Rightarrow> s
      | Inr allRecordingsFromDb \<Rightarrow> s\<lparr>recordings_state := allRecordingsFromDb\<rparr>)"

definition createRecordingsIndexedDbService :: "cause option \<Rightarrow> recording list \<Rightarrow> service" where
  "createRecordingsIndexedDbService fault stored =
     syncDbToRecordingsState fault \<lparr>db = RecordingsDatabase stored, recordings_state = []\<rparr>"

text \<open>
  What the two registered upgrades together do to one row: the v2 upgrade takes
  \<^verbatim>\<open>blob\<close> out of the row, the v3 upgrade puts it back.
\<close>

definition v1_to_v3_row :: "row \<Rightarrow> row" where
  "v1_to_v3_row r =
     AList.update ''blob'' (get_prop r ''blob'') (filter (\<lambda>(k, v). k \<noteq> ''blob'') r)"

section \<open>Example data\<close>

text \<open>Concrete stores and inputs on which the properties below are exercised.\<close>

definition recording_example :: "string \<Rightarrow> string \<Rightarrow> recording" where
  "recording_example i created =
     \<lparr>recording_id = i, recording_title = ''Note'', recording_subtitle = [],
      recording_transcribedText = ''hello'', recording_blob = Some (Blob ''audio''),
      recording_transcriptionStatus = DONE,
      recording_createdAt = created, recording_updatedAt = created\<rparr>"

definition transformation_example :: "string \<Rightarrow> transformation" where
  "transformation_example i =
     \<lparr>transformation_id = i, transformation_name = ''Trim'', transformation_description = [],
      transformation_createdAt = ''2024-01-01'', transformation_updatedAt = ''2024-01-01'',
      transformation_type = find_replace,
      find_replace_findText = ''  '', find_replace_replaceText = '' '',
      find_replace_useRegex = False,
      prompt_transform_model = [], prompt_transform_systemPromptTemplate = [],
      prompt_transform_userPromptTemplate = []\<rparr>"

definition pipeline_example :: "string \<Rightarrow> pipeline" where
  "pipeline_example i =
     \<lparr>pipeline_id = i, pipeline_title = ''Clean up'', pipeline_description = [],
      pipeline_createdAt = ''2024-01-01'', pipeline_updatedAt = ''2024-01-01'',
      pipeline_transformations =
        [\<lparr>transformationId = ''t1'', enabled = True\<rparr>,
         \<lparr>transformationId = ''t2'', enabled = False\<rparr>]\<rparr>"

definition run_example :: "string \<Rightarrow> string \<Rightarrow> string \<Rightarrow> pipeline_run" where
  "run_example i rid started =
     \<lparr>run_id = i, run_pipelineId = ''p1'', run_recordingId = rid, run_input = ''hello'',
      run_status = completed, run_startedAt = started,
      run_completedAt = Some started, run_error = None, run_output = Some ''hello''\<rparr>"

definition service_example :: service where
  "service_example =
     createRecordingsIndexedDbService None
       [recording_example ''r1'' ''2024-01-03'',
        recording_example ''r2'' ''2024-01-01'',
        recording_example ''r3'' ''2024-01-02'']"

definition settings_example :: "retention_strategy \<Rightarrow> string \<Rightarrow> settings" where
  "settings_example strategy n =
     \<lparr>database_recordingRetentionStrategy = strategy, database_maxRecordingCount = n\<rparr>"

definition row_v1_example :: row where
  "row_v1_example =
     [(''id'', JString ''r1''), (''title'', JString ''Note''), (''subtitle'', JString []),
      (''timestamp'', JString ''2024-01-01T00:00:00.000Z''),
      (''transcribedText'', JString ''hello''),
      (''blob'', JBlob (Blob ''audio'')),
      (''transcriptionStatus'', JString ''DONE'')]"

definition row_v3_example :: row where
  "row_v3_example =
     [(''id'', JString ''r1''), (''title'', JString ''Note''), (''subtitle'', JString []),
      (''timestamp'', JString ''2024-01-01T00:00:00.000Z''),
      (''transcribedText'', JString ''hello''),
      (''transcriptionStatus'', JString ''DONE''),
      (''blob'', JBlob (Blob ''audio''))]"

definition store_v1_example :: idb where
  "store_v1_example = \<lparr>idb_version = 1, idb_tables = [(''recordings'', [row_v1_example])]\<rparr>"

definition no_faults :: "nat \<Rightarrow> faults" where
  "no_faults v site = None"

definition quota_fault :: "nat \<Rightarrow> nat \<Rightarrow> nat \<Rightarrow> faults" where
  "quota_fault version call v site =
     (if v = version \<and> site = Body call then Some (EngineFault ''QuotaExceededError'') else None)"

definition read_fault :: "string \<Rightarrow> faults" where
  "read_fault name site =
     (if site = Dump name then Some (EngineFault ''UnknownError'') else None)"

definition metadata_v2_example :: row where
  "metadata_v2_example =
     [(''id'', JString ''r1''), (''title'', JString ''Note''), (''subtitle'', JString []),
      (''timestamp'', JString ''2024-01-01T00:00:00.000Z''),
      (''transcribedText'', JString ''hello''),
      (''transcriptionStatus'', JString ''DONE'')]"

definition dialog_example :: dialog where
  "dialog_example =
     \<lparr>dialog_title = ''Failed to upgrade IndexedDb Database to version 2'',
      dialog_description =
        ''Please download the database dump and delete the database to start fresh.'',
      dialog_content =
        \<lparr>dump_version = 2,
         dump_tables = [(''recordings'', [row_v1_example]),
                        (''recordingMetadata'', [metadata_v2_example]),
                        (''recordingBlobs'', [])]\<rparr>,
      dialog_buttons = [''Delete Database'', ''Download Database Dump'']\<rparr>"

section \<open>Properties\<close>

subsection \<open>The database the constructor builds\<close>

text \<open>
  The versions the constructor registers leave one table, \<^verbatim>\<open>recordings\<close>, indexed by
  \<^verbatim>\<open>id\<close> and \<^verbatim>\<open>timestamp\<close>. The fields \<^verbatim>\<open>pipelines\<close>, \<^verbatim>\<open>transformations\<close>,
  \<^verbatim>\<open>pipelineRuns\<close> and \<^verbatim>\<open>transformationResults\<close> of the database object are
  \<^verbatim>\<open>undefined\<close>, and there is no index on \<^verbatim>\<open>createdAt\<close>.
\<close>

lemma registered_schema_versions:
  "registered_schema versions = [(''recordings'', ''&id, timestamp'')]"
  by (simp add: registered_schema_def versions_def version_1_def version_2_def version_3_def)

lemma indexes_of_recordings: "schema_indexes ''&id, timestamp'' = [''id'', ''timestamp'']"
  by (simp add: schema_indexes_def)

lemma RecordingsDatabase_tables:
  "RecordingsDatabase stored =
     \<lparr>recordings = stored, pipelines = None, transformations = None, pipelineRuns = None,
      transformationResults = None, db_schema = [(''recordings'', ''&id, timestamp'')]\<rparr>"
  by (simp add: RecordingsDatabase_def registered_schema_versions table_property_def)

lemma createdAt_not_indexed:
  "\<not> indexed (db_schema (RecordingsDatabase stored)) ''recordings'' ''createdAt''"
  by (simp add: RecordingsDatabase_tables indexed_def indexes_of_recordings)

lemma timestamp_indexed:
  "indexed (db_schema (RecordingsDatabase stored)) ''recordings'' ''timestamp''"
  by (simp add: RecordingsDatabase_tables indexed_def indexes_of_recordings)

lemma createRecordingsIndexedDbService_state:
  "createRecordingsIndexedDbService None stored =
     \<lparr>db = RecordingsDatabase stored, recordings_state = stored\<rparr>"
  by (simp add: createRecordingsIndexedDbService_def syncDbToRecordingsState_def tryAsync_def
        engine_def toArray_def RecordingsDatabase_tables)

lemma service_example_state:
  "service_example =
     \<lparr>db = \<lparr>recordings = [recording_example ''r1'' ''2024-01-03'',
                            recording_example ''r2'' ''2024-01-01'',
                            recording_example ''r3'' ''2024-01-02''],
             pipelines = None, transformations = None, pipelineRuns = None,
             transformationResults = None,
             db_schema = [(''recordings'', ''&id, timestamp'')]\<rparr>,
      recordings_state = [recording_example ''r1'' ''2024-01-03'',
                          recording_example ''r2'' ''2024-01-01'',
                          recording_example ''r3'' ''2024-01-02'']\<rparr>"
  by (simp add: service_example_def createRecordingsIndexedDbService_state
        RecordingsDatabase_tables)

subsection \<open>The table invariant\<close>

text \<open>Every write of the table model keeps keys unique and rows in key order.\<close>

lemma table_ok_filter: "table_ok key t \<Longrightarrow> table_ok key (filter P t)"
  by (simp add: table_ok_def distinct_map_filter sorted_filter)

lemma table_ok_delete: "table_ok key t \<Longrightarrow> table_ok key (delete key k t)"
  by (simp add: delete_def table_ok_filter)

lemma table_ok_bulkDelete: "table_ok key t \<Longrightarrow> table_ok key (bulkDelete key ks t)"
  by (simp add: bulkDelete_def table_ok_filter)

lemma table_ok_insort:
  assumes "table_ok key t" and "key r \<notin> set (map key t)"
  shows "table_ok key (insort_key key r t)"
proof -
  have "distinct (map key (insort_key key r t))"
    using assms by (simp add: table_ok_def distinct_map set_insort_key distinct_insort inj_on_def)
       (metis image_eqI)
  moreover have "sorted (map key (insort_key key r t))"
    using assms by (simp add: table_ok_def sorted_insort_key)
  ultimately show ?thesis by (simp add: table_ok_def)
qed

lemma table_ok_add: "table_ok key t \<Longrightarrow> add name key r t = Inr t' \<Longrightarrow> table_ok key t'"
  by (auto simp: add_def table_ok_insort split: if_splits)

lemma table_ok_put: "table_ok key t \<Longrightarrow> table_ok key (put key r t)"
  unfolding put_def by (rule table_ok_insort) (auto simp: table_ok_filter)

lemma get_put: "get key (key r) (put key r t) = Some r"
proof -
  have "find (\<lambda>x. key x = key r) (insort_key key r xs) = Some r"
    if "\<forall>x\<in>set xs. key x \<noteq> key r" for xs
    using that by (induction xs) auto
  then show ?thesis by (simp add: get_def put_def)
qed

subsection \<open>Not found is a success outcome\<close>

lemma get_delete: "get key k (delete key k t) = None"
  by (simp add: get_def delete_def find_None_iff)

text \<open>
  C8. Once \<^verbatim>\<open>deleteRecording\<close> has succeeded for a recording, \<^verbatim>\<open>getRecording\<close> with
  the same id is the success outcome carrying the explicit not-found value \<open>None\<close>
  (\<^verbatim>\<open>null\<close>). The only other outcome it can have is the tagged failure of an engine
  rejection of the read itself; it never returns a recording.
\<close>

theorem getRecording_after_deleteRecording:
  "deleteRecording f r s = (Ok (), s') \<Longrightarrow>
   getRecording None (recording_id r) s' = Ok None \<and>
   getRecording (Some c) (recording_id r) s' =
     Err (DbServiceErr ''Error getting recording from Dexie'' ''Please try again'' c) \<and>
   (\<forall>f' x. getRecording f' (recording_id r) s' \<noteq> Ok (Some x))"
  by (auto simp: deleteRecording_def getRecording_def tryAsync_def engine_def get_delete
           split: option.splits)

theorem getRecording_after_deleteRecording_witness:
  "getRecording None ''r2'' service_example = Ok (Some (recording_example ''r2'' ''2024-01-01'')) \<and>
   (\<exists>s'. deleteRecording None (recording_example ''r2'' ''2024-01-01'') service_example = (Ok (), s') \<and>
         getRecording None ''r2'' s' = Ok None)"
proof -
  let ?r = "recording_example ''r2'' ''2024-01-01''"
  let ?s' = "snd (deleteRecording None ?r service_example)"
  have before: "getRecording None ''r2'' service_example = Ok (Some ?r)"
    by (simp add: getRecording_def tryAsync_def engine_def get_def service_example_state
          recording_example_def)
  have del: "deleteRecording None ?r service_example = (Ok (), ?s')"
    by (simp add: deleteRecording_def tryAsync_def engine_def)
  have "recording_id ?r = ''r2''"
    by (simp add: recording_example_def)
  with getRecording_after_deleteRecording [OF del] have "getRecording None ''r2'' ?s' = Ok None"
    by simp
  with before del show ?thesis by blast
qed

subsection \<open>The reactive mirror\<close>

lemma addRecording_mirror:
  assumes "set (recordings_state s) = set (recordings (db s))"
    and "addRecording f r s = (Ok (), s')"
  shows "set (recordings_state s') = set (recordings (db s'))"
  using assms
  by (auto simp: addRecording_def tryAsync_def engine_def add_def set_insort_key
           split: option.splits if_splits)

lemma deleteRecording_mirror:
  assumes "set (recordings_state s) = set (recordings (db s))"
    and "deleteRecording f r s = (Ok (), s')"
  shows "set (recordings_state s') = set (recordings (db s'))"
  using assms
  by (auto simp: deleteRecording_def tryAsync_def engine_def delete_def split: option.splits)

lemma updateRecording_mirror:
  assumes "set (recordings_state s) = set (recordings (db s))"
    and "recording_id r \<in> set (map recording_id (recordings (db s)))"
    and "updateRecording f r s = (Ok (), s')"
  shows "set (recordings_state s') = set (recordings (db s'))"
proof -
  from assms(3) have t: "recordings (db s') = put recording_id r (recordings (db s))"
    and m: "recordings_state s' =
              map (\<lambda>x. if recording_id x = recording_id r then r else x) (recordings_state s)"
    by (auto simp: updateRecording_def tryAsync_def engine_def split: option.splits)
  from assms(2) obtain x where x: "x \<in> set (recordings (db s))" "recording_id x = recording_id r"
    by auto
  have "set (recordings (db s')) =
          insert r {y \<in> set (recordings (db s)). recording_id y \<noteq> recording_id r}"
    by (simp add: t put_def set_insort_key)
  moreover have "set (recordings_state s') =
          insert r {y \<in> set (recordings (db s)). recording_id y \<noteq> recording_id r}"
    using x assms(1) by (auto simp: m)
  ultimately show ?thesis by simp
qed

text \<open>
  C5. The mirror follows \<^verbatim>\<open>addRecording\<close>, \<^verbatim>\<open>deleteRecording\<close> and an
  \<^verbatim>\<open>updateRecording\<close> of a stored id (the three lemmas above), but
  \<^verbatim>\<open>deleteRecordings\<close> writes the table and never touches the mirror. On the example
  service, whose mirror equals its table, a successful bulk delete of \<open>r2\<close> leaves
  \<open>r2\<close> in the mirror and not in the table; and a successful \<^verbatim>\<open>updateRecording\<close> of
  the unknown id \<open>r4\<close> puts \<open>r4\<close> in the table and not in the mirror.
\<close>

theorem deleteRecordings_leaves_mirror_stale:
  "recordings_state service_example = recordings (db service_example) \<and>
   (\<exists>s'. deleteRecordings None [recording_example ''r2'' ''2024-01-01''] service_example = (Ok (), s') \<and>
         recordings (db s') =
           [recording_example ''r1'' ''2024-01-03'', recording_example ''r3'' ''2024-01-02''] \<and>
         recordings_state s' =
           [recording_example ''r1'' ''2024-01-03'', recording_example ''r2'' ''2024-01-01'',
            recording_example ''r3'' ''2024-01-02''] \<and>
         recording_example ''r2'' ''2024-01-01'' \<in> set (recordings_state s') \<and>
         recording_example ''r2'' ''2024-01-01'' \<notin> set (recordings (db s'))) \<and>
   (\<exists>s'. updateRecording None (recording_example ''r4'' ''2024-01-04'') service_example = (Ok (), s') \<and>
         recording_example ''r4'' ''2024-01-04'' \<in> set (recordings (db s')) \<and>
         recording_example ''r4'' ''2024-01-04'' \<notin> set (recordings_state s'))"
  by (simp add: deleteRecordings_def updateRecording_def tryAsync_def engine_def bulkDelete_def
        put_def service_example_state recording_example_def)

subsection \<open>Updates\<close>

lemma mset_put_fresh:
  assumes "key r \<notin> set (map key t)"
  shows "mset (put key r t) = add_mset r (mset t)"
proof -
  from assms have "filter (\<lambda>x. key x \<noteq> key r) t = t"
    by (induction t) auto
  then show ?thesis by (simp add: put_def)
qed

text \<open>
  \<^verbatim>\<open>updateRecording\<close> is an upsert: for an id that is not stored it returns the success
  outcome and the table gains exactly that row.
\<close>

lemma updateRecording_is_upsert:
  assumes "recording_id r \<notin> set (map recording_id (recordings (db s)))"
  shows "\<exists>s'. updateRecording None r s = (Ok (), s') \<and>
              mset (recordings (db s')) = add_mset r (mset (recordings (db s)))"
  using assms
  by (simp add: updateRecording_def tryAsync_def engine_def mset_put_fresh)

text \<open>
  The other three updates write with \<^verbatim>\<open>put\<close> too, and would be upserts on a database
  that has their tables.
\<close>

lemma updatePipeline_when_registered:
  assumes "pipelines (db s) = Some t" and "pipeline_id p \<notin> set (map pipeline_id t)"
  shows "\<exists>s' t'. updatePipeline None p s = (Ok (), s') \<and> pipelines (db s') = Some t' \<and>
                 mset t' = add_mset p (mset t)"
  using assms
  by (simp add: updatePipeline_def on_table_def tryAsync_def engine_def mset_put_fresh)

lemma updateTransformation_when_registered:
  assumes "transformations (db s) = Some ts"
    and "transformation_id t \<notin> set (map transformation_id ts)"
  shows "\<exists>s' ts'. updateTransformation None t s = (Ok (), s') \<and>
                  transformations (db s') = Some ts' \<and> mset ts' = add_mset t (mset ts)"
  using assms
  by (simp add: updateTransformation_def on_table_def tryAsync_def engine_def mset_put_fresh)

lemma updatePipelineRun_when_registered:
  assumes "pipelineRuns (db s) = Some t" and "run_id u \<notin> set (map run_id t)"
  shows "\<exists>s' t'. updatePipelineRun None u s = (Ok (), s') \<and> pipelineRuns (db s') = Some t' \<and>
                 mset t' = add_mset u (mset t)"
  using assms
  by (simp add: updatePipelineRun_def on_table_def tryAsync_def engine_def mset_put_fresh)

text \<open>
  On a database the constructor builds the three tables do not exist: whatever the
  engine does, each of the three updates returns the tagged failure and changes nothing.
\<close>

lemma updates_on_constructed_database:
  assumes "db s = RecordingsDatabase stored"
  shows "updatePipeline f p s =
           (Err (DbServiceErr ''Error updating pipeline in Dexie'' ''Please try again''
                   (TypeError ''pipelines'')), s)"
    and "updateTransformation f t s =
           (Err (DbServiceErr ''Error updating transformation in Dexie'' ''Please try again''
                   (TypeError ''transformations'')), s)"
    and "updatePipelineRun f u s =
           (Err (DbServiceErr ''Error updating pipeline run in Dexie'' ''Please try again''
                   (TypeError ''pipelineRuns'')), s)"
  using assms
  by (simp_all add: updatePipeline_def updateTransformation_def updatePipelineRun_def
        on_table_def tryAsync_def RecordingsDatabase_tables)

text \<open>
  C9. \<^verbatim>\<open>updateRecording\<close> of the unknown id \<open>r4\<close> on the example service returns the
  success outcome and inserts the row. \<^verbatim>\<open>updatePipeline\<close>, \<^verbatim>\<open>updateTransformation\<close>
  and \<^verbatim>\<open>updatePipelineRun\<close> of unknown ids return the tagged failure and insert
  nothing: no registered version declares their tables, so the table fields of the
  database object are \<^verbatim>\<open>undefined\<close>.
\<close>

theorem updates_of_unregistered_tables_reject:
  "(\<exists>s'. updateRecording None (recording_example ''r4'' ''2024-01-04'') service_example = (Ok (), s') \<and>
         mset (recordings (db s')) =
           add_mset (recording_example ''r4'' ''2024-01-04'') (mset (recordings (db service_example)))) \<and>
   updatePipeline None (pipeline_example ''p2'') service_example =
     (Err (DbServiceErr ''Error updating pipeline in Dexie'' ''Please try again''
             (TypeError ''pipelines'')), service_example) \<and>
   updateTransformation None (transformation_example ''t4'') service_example =
     (Err (DbServiceErr ''Error updating transformation in Dexie'' ''Please try again''
             (TypeError ''transformations'')), service_example) \<and>
   updatePipelineRun None (run_example ''u4'' ''r1'' ''2024-02-04'') service_example =
     (Err (DbServiceErr ''Error updating pipeline run in Dexie'' ''Please try again''
             (TypeError ''pipelineRuns'')), service_example)"
proof -
  have d: "db service_example =
             RecordingsDatabase [recording_example ''r1'' ''2024-01-03'',
                                 recording_example ''r2'' ''2024-01-01'',
                                 recording_example ''r3'' ''2024-01-02'']"
    by (simp add: service_example_def createRecordingsIndexedDbService_state)
  have "recording_id (recording_example ''r4'' ''2024-01-04'')
          \<notin> set (map recording_id (recordings (db service_example)))"
    by (simp add: service_example_state recording_example_def)
  then have "\<exists>s'. updateRecording None (recording_example ''r4'' ''2024-01-04'') service_example = (Ok (), s') \<and>
         mset (recordings (db s')) =
           add_mset (recording_example ''r4'' ''2024-01-04'') (mset (recordings (db service_example)))"
    by (rule updateRecording_is_upsert)
  then show ?thesis
    using updates_on_constructed_database [OF d] by simp
qed

subsection \<open>Starting a pipeline run\<close>

text \<open>
  On a database that has the \<^verbatim>\<open>pipelineRuns\<close> table, with a drawn id that is not yet a
  key and a write the engine accepts, \<^verbatim>\<open>startPipelineRun\<close> would add exactly one row:
  status \<open>running\<close>, the drawn id, the clock reading, the recording's transcribed text
  as input, and \<^verbatim>\<open>null\<close> for \<^verbatim>\<open>completedAt\<close>, \<^verbatim>\<open>error\<close> and \<^verbatim>\<open>output\<close>.
\<close>

lemma startPipelineRun_when_registered:
  assumes "pipelineRuns (db s) = Some t" and "newId \<notin> set (map run_id t)"
  shows "\<exists>s' t'. startPipelineRun None now newId p r s = (Ok (), s') \<and>
           pipelineRuns (db s') = Some t' \<and>
           mset t' =
             add_mset \<lparr>run_id = newId, run_pipelineId = pipeline_id p,
                       run_recordingId = recording_id r,
                       run_input = recording_transcribedText r,
                       run_status = running, run_startedAt = now,
                       run_completedAt = None, run_error = None, run_output = None\<rparr>
               (mset t)"
  using assms
  by (simp add: startPipelineRun_def on_table_def tryAsync_def engine_def add_def Let_def)

lemma startPipelineRun_on_constructed_database:
  assumes "db s = RecordingsDatabase stored"
  shows "startPipelineRun f now newId p r s =
           (Err (DbServiceErr ''Error starting pipeline run in Dexie'' ''Please try again''
                   (TypeError ''pipelineRuns'')), s)"
  using assms
  by (simp add: startPipelineRun_def on_table_def tryAsync_def RecordingsDatabase_tables Let_def)

text \<open>
  C7. On the example service \<^verbatim>\<open>startPipelineRun\<close> returns the tagged failure and
  inserts nothing: no registered version declares \<^verbatim>\<open>pipelineRuns\<close>, so
  \<^verbatim>\<open>db.pipelineRuns\<close> is \<^verbatim>\<open>undefined\<close> and the call of \<^verbatim>\<open>add\<close> on it throws.
\<close>

theorem startPipelineRun_rejects:
  "startPipelineRun None ''2024-03-01T10:00:00.000Z'' ''u9'' (pipeline_example ''p1'')
       (recording_example ''r1'' ''2024-01-03'') service_example =
     (Err (DbServiceErr ''Error starting pipeline run in Dexie'' ''Please try again''
             (TypeError ''pipelineRuns'')), service_example) \<and>
   pipelineRuns (db service_example) = None"
proof -
  have d: "db service_example =
             RecordingsDatabase [recording_example ''r1'' ''2024-01-03'',
                                 recording_example ''r2'' ''2024-01-01'',
                                 recording_example ''r3'' ''2024-01-02'']"
    by (simp add: service_example_def createRecordingsIndexedDbService_state)
  show ?thesis
    using startPipelineRun_on_constructed_database [OF d]
    by (simp add: service_example_state)
qed

subsection \<open>Runs of a recording, most recent first\<close>

text \<open>
  On a database that has the \<^verbatim>\<open>pipelineRuns\<close> table with an index on \<^verbatim>\<open>recordingId\<close>,
  and a read the engine accepts, \<^verbatim>\<open>getPipelineRunsByRecording\<close> would return exactly
  the stored runs of the recording, in descending order of \<^verbatim>\<open>startedAt\<close>.
\<close>

lemma getPipelineRunsByRecording_when_registered:
  assumes "pipelineRuns (db s) = Some t"
    and "indexed (db_schema (db s)) ''pipelineRuns'' ''recordingId''"
  shows "\<exists>rs. getPipelineRunsByRecording None r s = Ok rs \<and>
        mset rs = mset (filter (\<lambda>u. run_recordingId u = recording_id r) t) \<and>
        sorted_wrt (\<lambda>a b. run_startedAt b \<le> run_startedAt a) rs"
proof -
  let ?xs = "filter (\<lambda>u. run_recordingId u = recording_id r) t"
  let ?rs = "rev (sort_key run_startedAt ?xs)"
  have res: "getPipelineRunsByRecording None r s = Ok ?rs"
    using assms
    by (simp add: getPipelineRunsByRecording_def on_table_def tryAsync_def engine_def sortBy_def
          reverse_def where_equals_def coll_toArray_def)
  have "sorted (map run_startedAt (sort_key run_startedAt ?xs))"
    by (rule sorted_sort_key)
  then have "sorted_wrt (\<lambda>a b. run_startedAt a \<le> run_startedAt b) (sort_key run_startedAt ?xs)"
    by (simp add: sorted_map)
  then have ord: "sorted_wrt (\<lambda>a b. run_startedAt b \<le> run_startedAt a) ?rs"
    by (simp add: sorted_wrt_rev)
  have "mset ?rs = mset ?xs" by simp
  with res ord show ?thesis by blast
qed

lemma getPipelineRunsByRecording_on_constructed_database:
  assumes "db s = RecordingsDatabase stored"
  shows "getPipelineRunsByRecording f r s =
           Err (DbServiceErr ''Error getting pipeline runs from Dexie'' ''Please try again''
                  (TypeError ''pipelineRuns''))"
  using assms
  by (simp add: getPipelineRunsByRecording_def on_table_def tryAsync_def RecordingsDatabase_tables)

text \<open>
  C6. On the example service \<^verbatim>\<open>getPipelineRunsByRecording\<close> returns the tagged failure
  and no list of runs: no registered version declares \<^verbatim>\<open>pipelineRuns\<close>, so
  \<^verbatim>\<open>db.pipelineRuns\<close> is \<^verbatim>\<open>undefined\<close> and the call of \<^verbatim>\<open>where\<close> on it throws.
\<close>

theorem getPipelineRunsByRecording_rejects:
  "getPipelineRunsByRecording None (recording_example ''r1'' ''2024-01-03'') service_example =
     Err (DbServiceErr ''Error getting pipeline runs from Dexie'' ''Please try again''
            (TypeError ''pipelineRuns''))"
proof -
  have d: "db service_example =
             RecordingsDatabase [recording_example ''r1'' ''2024-01-03'',
                                 recording_example ''r2'' ''2024-01-01'',
                                 recording_example ''r3'' ''2024-01-02'']"
    by (simp add: service_example_def createRecordingsIndexedDbService_state)
  show ?thesis
    by (rule getPipelineRunsByRecording_on_constructed_database [OF d])
qed

subsection \<open>Cascade delete\<close>

text \<open>
  On a database that has both tables the cascade delete is all or nothing: with no
  fault it removes the pipeline row and every transformation the pipeline references;
  with a fault at either delete or at the commit it changes nothing and returns the
  tagged failure carrying the cause.
\<close>

lemma cascade_delete_when_registered:
  assumes "pipelines (db s) = Some ps" and "transformations (db s) = Some ts"
  shows "deletePipelineWithAssociatedTransformations None None None p s =
     (Ok (), s\<lparr>db := (db s)\<lparr>pipelines := Some (delete pipeline_id (pipeline_id p) ps),
                           transformations :=
                             Some (bulkDelete transformation_id
                                     (map transformationId (pipeline_transformations p)) ts)\<rparr>\<rparr>)"
    and "deletePipelineWithAssociatedTransformations None (Some c) f3 p s =
     (Err (DbServiceErr ''Error deleting pipeline from Dexie'' ''Please try again'' c), s)"
    and "deletePipelineWithAssociatedTransformations (Some c) f2 f3 p s =
     (Err (DbServiceErr ''Error deleting pipeline from Dexie'' ''Please try again'' c), s)"
    and "deletePipelineWithAssociatedTransformations None None (Some c) p s =
     (Err (DbServiceErr ''Error deleting pipeline from Dexie'' ''Please try again'' c), s)"
  using assms
  by (simp_all add: deletePipelineWithAssociatedTransformations_def transaction_def in_scope_def
        table_handle_def on_table_def List.map_filter_def engine_def tryAsync_def Let_def)

lemma cascade_delete_on_constructed_database:
  assumes "db s = RecordingsDatabase stored"
  shows "deletePipelineWithAssociatedTransformations f1 f2 f3 p s =
           (Err (DbServiceErr ''Error deleting pipeline from Dexie'' ''Please try again''
                   (TypeError ''Invalid table argument'')), s)"
  using assms
  by (simp add: deletePipelineWithAssociatedTransformations_def transaction_def
        table_handle_def tryAsync_def RecordingsDatabase_tables)

text \<open>
  C4. On the example service \<^verbatim>\<open>deletePipelineWithAssociatedTransformations\<close> returns
  the tagged failure whatever the faults, and deletes nothing: no registered version
  declares \<^verbatim>\<open>pipelines\<close> or \<^verbatim>\<open>transformations\<close>, so the transaction is handed two
  \<^verbatim>\<open>undefined\<close> tables and rejects before its body runs.
\<close>

theorem cascade_delete_rejects:
  "deletePipelineWithAssociatedTransformations None None None (pipeline_example ''p1'')
       service_example =
     (Err (DbServiceErr ''Error deleting pipeline from Dexie'' ''Please try again''
             (TypeError ''Invalid table argument'')), service_example) \<and>
   pipelines (db service_example) = None \<and>
   transformations (db service_example) = None"
proof -
  have d: "db service_example =
             RecordingsDatabase [recording_example ''r1'' ''2024-01-03'',
                                 recording_example ''r2'' ''2024-01-01'',
                                 recording_example ''r3'' ''2024-01-02'']"
    by (simp add: service_example_def createRecordingsIndexedDbService_state)
  show ?thesis
    using cascade_delete_on_constructed_database [OF d]
    by (simp add: service_example_state)
qed

subsection \<open>Retention\<close>

lemma bulkDelete_primaryKeys:
  assumes "distinct (map key t)" and "set D \<subseteq> set t"
  shows "bulkDelete key (primaryKeys key D) t = filter (\<lambda>r. r \<notin> set D) t"
proof -
  have inj: "inj_on key (set t)"
    using assms(1) by (simp add: distinct_map)
  have "(key r \<in> key ` set D) = (r \<in> set D)" if "r \<in> set t" for r
    using inj that assms(2) by (meson inj_on_image_mem_iff)
  then show ?thesis
    unfolding bulkDelete_def primaryKeys_def by (auto intro: filter_cong)
qed

lemma oldest_first_split:
  fixes f :: "'r \<Rightarrow> string"
  assumes dk: "distinct (map key t)" and df: "distinct (map f t)" and kM: "k \<le> length t"
  defines "D \<equiv> take k (sort_key f t)"
  defines "K \<equiv> filter (\<lambda>r. r \<notin> set D) t"
  shows "length K = length t - k"
    and "length (filter (\<lambda>r. r \<notin> set K) t) = k"
    and "\<forall>d j. d \<in> set t \<and> d \<notin> set K \<and> j \<in> set K \<longrightarrow> f d < f j"
    and "set D \<subseteq> set t"
proof -
  let ?st = "sort_key f t"
  have dt: "distinct t" using dk by (simp add: distinct_map)
  have dst: "distinct ?st" using dt by simp
  have split: "?st = D @ drop k ?st" by (simp add: D_def)
  have sub: "set D \<subseteq> set t"
    unfolding D_def using set_take_subset[of k ?st] by simp
  show "set D \<subseteq> set t" by (rule sub)
  have lenD: "length D = k" using kM by (simp add: D_def)
  have dD: "distinct D" using dst by (simp add: D_def)
  have cardD: "card (set D) = k" using dD lenD by (simp add: distinct_card)
  have inD: "length (filter (\<lambda>r. r \<in> set D) t) = k"
  proof -
    have "length (filter (\<lambda>r. r \<in> set D) t) = card ({r. r \<in> set D} \<inter> set t)"
      using dt by (rule distinct_length_filter)
    also have "{r. r \<in> set D} \<inter> set t = set D" using sub by auto
    finally show ?thesis using cardD by simp
  qed
  have "length (filter (\<lambda>r. r \<in> set D) t) + length K = length t"
    unfolding K_def by (rule sum_length_filter_compl)
  with inD show "length K = length t - k" by simp
  have setK: "set K = set t - set D" unfolding K_def by auto
  have "filter (\<lambda>r. r \<notin> set K) t = filter (\<lambda>r. r \<in> set D) t"
    by (rule filter_cong) (auto simp: setK)
  with inD show "length (filter (\<lambda>r. r \<notin> set K) t) = k" by simp
  have disj: "set D \<inter> set (drop k ?st) = {}"
    using dst split by (metis distinct_append)
  have un: "set t = set D \<union> set (drop k ?st)"
    using split by (metis set_append set_sort)
  have "sorted (map f ?st)" by (rule sorted_sort_key)
  then have "sorted (map f D @ map f (drop k ?st))"
    using split by (metis map_append)
  then have le: "\<forall>a\<in>set D. \<forall>b\<in>set (drop k ?st). f a \<le> f b"
    by (auto simp: sorted_append)
  have inj: "inj_on f (set t)" using df by (simp add: distinct_map)
  show "\<forall>d j. d \<in> set t \<and> d \<notin> set K \<and> j \<in> set K \<longrightarrow> f d < f j"
  proof (intro allI impI)
    fix d j
    assume h: "d \<in> set t \<and> d \<notin> set K \<and> j \<in> set K"
    then have dD': "d \<in> set D" using setK by auto
    from h have jt: "j \<in> set t" and jD: "j \<notin> set D" using setK by auto
    then have jdrop: "j \<in> set (drop k ?st)" using un by auto
    have "f d \<le> f j" using le dD' jdrop by blast
    moreover have "d \<noteq> j" using dD' jD by auto
    then have "f d \<noteq> f j" using inj h jt by (auto dest: inj_onD)
    ultimately show "f d < f j" by simp
  qed
qed

lemma cleanup_keep_forever:
  "database_recordingRetentionStrategy st = keep_forever \<Longrightarrow>
   cleanupExpiredRecordings fc fk fd st s = (Ok (), s)"
  by (simp add: cleanupExpiredRecordings_def)

lemma cleanup_within_limit:
  assumes "database_recordingRetentionStrategy st = limit_count"
    and "parseInt (database_maxRecordingCount st) = Num (int N)"
    and "length (recordings (db s)) \<le> N"
  shows "snd (cleanupExpiredRecordings fc fk fd st s) = s"
    and "cleanupExpiredRecordings None fk fd st s = (Ok (), s)"
  using assms
  by (auto simp: cleanupExpiredRecordings_def tryAsync_def engine_def count_rows_def num_le_def
           split: option.splits)

lemma cleanup_over_limit:
  assumes "database_recordingRetentionStrategy st = limit_count"
    and "parseInt (database_maxRecordingCount st) = Num (int N)"
    and "N < length (recordings (db s))"
    and "indexed (db_schema (db s)) ''recordings'' ''createdAt''"
  shows "cleanupExpiredRecordings None None None st s =
           (Ok (), s\<lparr>db := (db s)\<lparr>recordings :=
              bulkDelete recording_id
                (primaryKeys recording_id
                   (take (length (recordings (db s)) - N)
                      (sort_key recording_createdAt (recordings (db s)))))
                (recordings (db s))\<rparr>\<rparr>)"
proof -
  have "nat (int (length (recordings (db s))) - int N) = length (recordings (db s)) - N"
    by simp
  moreover have "recordings (db s) \<noteq> []"
    using assms(3) by auto
  ultimately show ?thesis
    using assms
    by (simp add: cleanupExpiredRecordings_def tryAsync_def engine_def count_rows_def num_le_def
          num_minus_def limit_def orderBy_def)
qed

text \<open>
  On a database whose recordings table has an index on \<^verbatim>\<open>createdAt\<close> the cleanup does
  what its code sets out to do: \<^verbatim>\<open>keep-forever\<close> and a store within the limit change
  nothing, and a store of \<open>M > N\<close> recordings with distinct creation times keeps
  exactly \<open>N\<close>, every deleted recording older than every kept one, after which a
  second cleanup changes nothing.
\<close>

lemma cleanup_when_createdAt_indexed:
  "(database_recordingRetentionStrategy st = keep_forever \<longrightarrow>
      cleanupExpiredRecordings fc fk fd st s = (Ok (), s)) \<and>
   (database_recordingRetentionStrategy st = limit_count \<and>
    parseInt (database_maxRecordingCount st) = Num (int N) \<and>
    length (recordings (db s)) \<le> N \<longrightarrow>
      snd (cleanupExpiredRecordings fc fk fd st s) = s \<and>
      cleanupExpiredRecordings None fk fd st s = (Ok (), s)) \<and>
   (database_recordingRetentionStrategy st = limit_count \<and>
    parseInt (database_maxRecordingCount st) = Num (int N) \<and>
    N < length (recordings (db s)) \<and>
    indexed (db_schema (db s)) ''recordings'' ''createdAt'' \<and>
    distinct (map recording_id (recordings (db s))) \<and>
    distinct (map recording_createdAt (recordings (db s))) \<longrightarrow>
      (\<exists>s'. cleanupExpiredRecordings None None None st s = (Ok (), s') \<and>
            recordings (db s') =
              filter (\<lambda>r. r \<notin> set (take (length (recordings (db s)) - N)
                                       (sort_key recording_createdAt (recordings (db s)))))
                (recordings (db s)) \<and>
            length (recordings (db s')) = N \<and>
            length (filter (\<lambda>r. r \<notin> set (recordings (db s'))) (recordings (db s))) =
              length (recordings (db s)) - N \<and>
            (\<forall>d k. d \<in> set (recordings (db s)) \<and> d \<notin> set (recordings (db s')) \<and>
                   k \<in> set (recordings (db s')) \<longrightarrow>
                   recording_createdAt d < recording_createdAt k) \<and>
            snd (cleanupExpiredRecordings fc fk fd st s') = s'))"
proof (intro conjI impI)
  show "cleanupExpiredRecordings fc fk fd st s = (Ok (), s)"
    if "database_recordingRetentionStrategy st = keep_forever"
    using that by (rule cleanup_keep_forever)
next
  assume h: "database_recordingRetentionStrategy st = limit_count \<and>
    parseInt (database_maxRecordingCount st) = Num (int N) \<and>
    length (recordings (db s)) \<le> N"
  then show "snd (cleanupExpiredRecordings fc fk fd st s) = s"
    by (simp add: cleanup_within_limit(1))
  from h show "cleanupExpiredRecordings None fk fd st s = (Ok (), s)"
    by (simp add: cleanup_within_limit(2))
next
  let ?t = "recordings (db s)"
  let ?D = "take (length ?t - N) (sort_key recording_createdAt ?t)"
  let ?K = "filter (\<lambda>r. r \<notin> set ?D) ?t"
  let ?s' = "s\<lparr>db := (db s)\<lparr>recordings := ?K\<rparr>\<rparr>"
  assume h: "database_recordingRetentionStrategy st = limit_count \<and>
    parseInt (database_maxRecordingCount st) = Num (int N) \<and>
    N < length ?t \<and> indexed (db_schema (db s)) ''recordings'' ''createdAt'' \<and>
    distinct (map recording_id ?t) \<and> distinct (map recording_createdAt ?t)"
  then have dk: "distinct (map recording_id ?t)" and df: "distinct (map recording_createdAt ?t)"
    and kM: "length ?t - N \<le> length ?t"
    by simp_all
  note split = oldest_first_split[OF dk df kM]
  have del: "bulkDelete recording_id (primaryKeys recording_id ?D) ?t = ?K"
    using dk split(4) by (rule bulkDelete_primaryKeys)
  have run: "cleanupExpiredRecordings None None None st s = (Ok (), ?s')"
    using h by (simp add: cleanup_over_limit del)
  have len: "length (recordings (db ?s')) = N"
    using split(1) h by simp
  have again: "snd (cleanupExpiredRecordings fc fk fd st ?s') = ?s'"
    using h len by (intro cleanup_within_limit(1)[where N = N]) simp_all
  have "recordings (db ?s') = ?K" by simp
  moreover have "length (filter (\<lambda>r. r \<notin> set (recordings (db ?s'))) ?t) = length ?t - N"
    using split(2) by simp
  moreover have "\<forall>d k. d \<in> set ?t \<and> d \<notin> set (recordings (db ?s')) \<and>
                   k \<in> set (recordings (db ?s')) \<longrightarrow>
                   recording_createdAt d < recording_createdAt k"
    using split(3) by simp
  ultimately show "\<exists>s'. cleanupExpiredRecordings None None None st s = (Ok (), s') \<and>
            recordings (db s') = ?K \<and>
            length (recordings (db s')) = N \<and>
            length (filter (\<lambda>r. r \<notin> set (recordings (db s'))) ?t) = length ?t - N \<and>
            (\<forall>d k. d \<in> set ?t \<and> d \<notin> set (recordings (db s')) \<and>
                   k \<in> set (recordings (db s')) \<longrightarrow>
                   recording_createdAt d < recording_createdAt k) \<and>
            snd (cleanupExpiredRecordings fc fk fd st s') = s'"
    using run len again by blast
qed

text \<open>
  Without that index the key query rejects before anything is deleted: over the limit
  the cleanup returns the tagged failure and the store is what it was.
\<close>

lemma cleanup_over_limit_rejects:
  assumes "database_recordingRetentionStrategy st = limit_count"
    and "parseInt (database_maxRecordingCount st) = Num (int N)"
    and "N < length (recordings (db s))"
    and "\<not> indexed (db_schema (db s)) ''recordings'' ''createdAt''"
  shows "cleanupExpiredRecordings None fk fd st s =
           (Err (DbServiceErr ''Unable to clean up old recordings''
                   ''Some old recordings could not be deleted''
                   (not_indexed ''recordings'' ''createdAt'')), s)"
proof -
  have "recordings (db s) \<noteq> []"
    using assms(3) by auto
  then show ?thesis
    using assms
    by (simp add: cleanupExpiredRecordings_def tryAsync_def engine_def count_rows_def num_le_def
          orderBy_def)
qed

lemma cleanup_on_constructed_database:
  assumes "db s = RecordingsDatabase stored"
    and "database_recordingRetentionStrategy st = limit_count"
    and "parseInt (database_maxRecordingCount st) = Num (int N)"
    and "N < length stored"
  shows "cleanupExpiredRecordings None fk fd st s =
           (Err (DbServiceErr ''Unable to clean up old recordings''
                   ''Some old recordings could not be deleted''
                   (not_indexed ''recordings'' ''createdAt'')), s)"
proof -
  have "\<not> indexed (db_schema (db s)) ''recordings'' ''createdAt''"
    using assms(1) createdAt_not_indexed by simp
  moreover have "N < length (recordings (db s))"
    using assms(1,4) by (simp add: RecordingsDatabase_tables)
  ultimately show ?thesis
    using assms(2,3) by (intro cleanup_over_limit_rejects) simp_all
qed

text \<open>
  C3. On the example service, which holds three recordings with distinct creation
  times: \<^verbatim>\<open>keep-forever\<close> deletes nothing and \<^verbatim>\<open>limit-count\<close> with maximum 5 deletes
  nothing, both with the success outcome. \<^verbatim>\<open>limit-count\<close> with maximum 2 and no engine
  fault returns the tagged failure and deletes nothing, instead of deleting the oldest
  recording: the recordings table is declared as \<^verbatim>\<open>'&id, timestamp'\<close>, so
  \<^verbatim>\<open>orderBy('createdAt')\<close> has no index to walk and rejects.
\<close>

theorem cleanupExpiredRecordings_rejects_over_limit:
  "cleanupExpiredRecordings None None None (settings_example keep_forever ''2'') service_example =
     (Ok (), service_example) \<and>
   cleanupExpiredRecordings None None None (settings_example limit_count ''5'') service_example =
     (Ok (), service_example) \<and>
   parseInt (database_maxRecordingCount (settings_example limit_count ''2'')) = Num 2 \<and>
   length (recordings (db service_example)) = 3 \<and>
   distinct (map recording_createdAt (recordings (db service_example))) \<and>
   cleanupExpiredRecordings None None None (settings_example limit_count ''2'') service_example =
     (Err (DbServiceErr ''Unable to clean up old recordings''
             ''Some old recordings could not be deleted''
             (SchemaError ''KeyPath createdAt on object store recordings is not indexed'')),
      service_example)"
proof -
  have d: "db service_example =
             RecordingsDatabase [recording_example ''r1'' ''2024-01-03'',
                                 recording_example ''r2'' ''2024-01-01'',
                                 recording_example ''r3'' ''2024-01-02'']"
    by (simp add: service_example_def createRecordingsIndexedDbService_state)
  have k: "database_recordingRetentionStrategy (settings_example keep_forever ''2'') = keep_forever"
    by (simp add: settings_example_def)
  have l: "database_recordingRetentionStrategy (settings_example limit_count n) = limit_count" for n
    by (simp add: settings_example_def)
  have p5: "parseInt (database_maxRecordingCount (settings_example limit_count ''5'')) = Num (int 5)"
    by (simp add: settings_example_def parseInt_def isWhiteSpace_def digitValue_def mathInt_def)
  have p2: "parseInt (database_maxRecordingCount (settings_example limit_count ''2'')) = Num (int 2)"
    by (simp add: settings_example_def parseInt_def isWhiteSpace_def digitValue_def mathInt_def)
  have len: "length (recordings (db service_example)) = 3"
    by (simp add: service_example_state)
  have dc: "distinct (map recording_createdAt (recordings (db service_example)))"
    by (simp add: service_example_state recording_example_def)
  have c1: "cleanupExpiredRecordings None None None (settings_example keep_forever ''2'') service_example =
     (Ok (), service_example)"
    using k by (rule cleanup_keep_forever)
  have c2: "cleanupExpiredRecordings None None None (settings_example limit_count ''5'') service_example =
     (Ok (), service_example)"
    using l p5 len by (intro cleanup_within_limit(2) [where N = 5]) simp_all
  have c3: "cleanupExpiredRecordings None None None (settings_example limit_count ''2'') service_example =
     (Err (DbServiceErr ''Unable to clean up old recordings''
             ''Some old recordings could not be deleted''
             (not_indexed ''recordings'' ''createdAt'')), service_example)"
    using d l p2 by (rule cleanup_on_constructed_database) simp
  from c1 c2 p2 len dc c3 show ?thesis
    by (simp add: not_indexed_def)
qed

subsection \<open>Failure of an upgrade\<close>

lemma handler_dump:
  "handleUpgradeError flt tx version error =
     ([\<lparr>dialog_title = ''Failed to upgrade IndexedDb Database to version '' @ show_nat version,
        dialog_description =
          ''Please download the database dump and delete the database to start fresh.'',
        dialog_content = \<lparr>dump_version = version,
                           dump_tables = map (\<lambda>n. (n, dumpTable flt tx n)) DUMP_TABLE_NAMES\<rparr>,
        dialog_buttons = [''Delete Database'', ''Download Database Dump'']\<rparr>],
      Inl error)"
  by (simp add: handleUpgradeError_def DUMP_TABLE_NAMES_def Let_def)

text \<open>
  C10. Whatever happens to the three reads of the dump, \<^verbatim>\<open>handleUpgradeError\<close> opens
  one dialog whose dump carries the version and the three table names in order, and then
  rejects with the error it was given. A table whose read rejects contributes the empty
  list; a table whose read succeeds contributes its rows.
\<close>

theorem handleUpgradeError_always_rethrows:
  "snd (handleUpgradeError flt tx version error) = Inl error \<and>
   (\<exists>d. fst (handleUpgradeError flt tx version error) = [d] \<and>
        dump_version (dialog_content d) = version \<and>
        dump_tables (dialog_content d) = map (\<lambda>n. (n, dumpTable flt tx n)) DUMP_TABLE_NAMES) \<and>
   (\<forall>n e. tx_toArray (flt (Dump n)) tx n = Inl e \<longrightarrow> dumpTable flt tx n = []) \<and>
   (\<forall>n rows. tx_toArray (flt (Dump n)) tx n = Inr rows \<longrightarrow> dumpTable flt tx n = rows)"
  by (simp add: handler_dump dumpTable_def)

theorem handleUpgradeError_always_rethrows_witness:
  "tx_toArray (read_fault ''recordings'' (Dump ''recordings''))
     [(''recordings'', [row_v1_example]), (''recordingMetadata'', [metadata_v2_example])]
     ''recordings'' = Inl (EngineFault ''UnknownError'') \<and>
   tx_toArray (read_fault ''recordings'' (Dump ''recordingMetadata''))
     [(''recordings'', [row_v1_example]), (''recordingMetadata'', [metadata_v2_example])]
     ''recordingMetadata'' = Inr [metadata_v2_example] \<and>
   tx_toArray (read_fault ''recordings'' (Dump ''recordingBlobs''))
     [(''recordings'', [row_v1_example]), (''recordingMetadata'', [metadata_v2_example])]
     ''recordingBlobs'' = Inl (InvalidTableError ''recordingBlobs'') \<and>
   (\<exists>d. handleUpgradeError (read_fault ''recordings'')
          [(''recordings'', [row_v1_example]), (''recordingMetadata'', [metadata_v2_example])]
          2 (ConstraintError ''recordingBlobs'') = ([d], Inl (ConstraintError ''recordingBlobs'')) \<and>
        dump_tables (dialog_content d) =
          [(''recordings'', []), (''recordingMetadata'', [metadata_v2_example]),
           (''recordingBlobs'', [])])"
proof -
  let ?tx = "[(''recordings'', [row_v1_example]), (''recordingMetadata'', [metadata_v2_example])]"
  let ?flt = "read_fault ''recordings''"
  let ?e = "ConstraintError ''recordingBlobs''"
  have r1: "tx_toArray (?flt (Dump ''recordings'')) ?tx ''recordings'' =
              Inl (EngineFault ''UnknownError'')"
    by (simp add: tx_toArray_def engine_def read_fault_def)
  have r2: "tx_toArray (?flt (Dump ''recordingMetadata'')) ?tx ''recordingMetadata'' =
              Inr [metadata_v2_example]"
    by (simp add: tx_toArray_def engine_def read_fault_def)
  have r3: "tx_toArray (?flt (Dump ''recordingBlobs'')) ?tx ''recordingBlobs'' =
              Inl (InvalidTableError ''recordingBlobs'')"
    by (simp add: tx_toArray_def engine_def read_fault_def)
  note h = handleUpgradeError_always_rethrows [of ?flt ?tx 2 ?e]
  from h r1 have d1: "dumpTable ?flt ?tx ''recordings'' = []" by blast
  from h r2 have d2: "dumpTable ?flt ?tx ''recordingMetadata'' = [metadata_v2_example]" by blast
  from h r3 have d3: "dumpTable ?flt ?tx ''recordingBlobs'' = []" by blast
  from h obtain d where d: "fst (handleUpgradeError ?flt ?tx 2 ?e) = [d]"
    "dump_tables (dialog_content d) = map (\<lambda>n. (n, dumpTable ?flt ?tx n)) DUMP_TABLE_NAMES"
    by blast
  from h have "snd (handleUpgradeError ?flt ?tx 2 ?e) = Inl ?e" by blast
  with d(1) have res: "handleUpgradeError ?flt ?tx 2 ?e = ([d], Inl ?e)"
    by (simp add: prod_eq_iff)
  have "dump_tables (dialog_content d) =
          [(''recordings'', []), (''recordingMetadata'', [metadata_v2_example]),
           (''recordingBlobs'', [])]"
    by (simp add: d(2) DUMP_TABLE_NAMES_def d1 d2 d3)
  with res r1 r2 r3 show ?thesis by blast
qed

lemma versions_above_1:
  "filter (\<lambda>v. Suc 0 < decl_version v) (sort_key decl_version versions) = [version_2, version_3]"
  by (simp add: versions_def version_1_def version_2_def version_3_def)

lemma versions_above_2:
  "filter (\<lambda>v. 2 < decl_version v) (sort_key decl_version versions) = [version_3]"
  by (simp add: versions_def version_1_def version_2_def version_3_def)

lemma target_version_versions: "target_version versions = 3"
  by (simp add: target_version_def versions_def version_1_def version_2_def version_3_def)

lemma version_fields:
  "decl_version version_2 = 2" "decl_upgrade version_2 = Some upgrade_v2"
  "decl_version version_3 = 3" "decl_upgrade version_3 = Some upgrade_v3"
  by (simp_all add: version_2_def version_3_def)

lemma open_v1_fails_at_v2:
  "idb_version s = 1 \<Longrightarrow>
   upgrade_v2 (flt 2) (create_tables (decl_stores version_2) (idb_tables s)) = (ds, Inl e) \<Longrightarrow>
   open_db flt s = (ds, Inl e, s)"
  by (simp add: open_db_def versions_above_1 target_version_versions version_fields)

lemma open_v1_fails_at_v3:
  "idb_version s = 1 \<Longrightarrow>
   upgrade_v2 (flt 2) (create_tables (decl_stores version_2) (idb_tables s)) = ([], Inr tx2) \<Longrightarrow>
   upgrade_v3 (flt 3) (create_tables (decl_stores version_3)
                          (drop_tables (decl_stores version_2) tx2)) = (ds, Inl e) \<Longrightarrow>
   open_db flt s = (ds, Inl e, s)"
  by (simp add: open_db_def versions_above_1 target_version_versions version_fields)

lemma open_v2_fails_at_v3:
  "idb_version s = 2 \<Longrightarrow>
   upgrade_v3 (flt 3) (create_tables (decl_stores version_3) (idb_tables s)) = (ds, Inl e) \<Longrightarrow>
   open_db flt s = (ds, Inl e, s)"
  by (simp add: open_db_def versions_above_2 target_version_versions version_fields)

text \<open>
  C2. When the body of the v2 or of the v3 upgrade rejects with a cause, the upgrade is
  what \<^verbatim>\<open>handleUpgradeError\<close> returns for that cause and the transaction as the body
  left it: one dialog carrying the dump of the three tables for that version, and a
  rejection with the same cause. An upgrade that rejects makes the open fail with that
  cause and leaves the stored database, its version included, exactly as it was:
  for a v1 store failing in the v2 upgrade, for a v1 store failing in the v3 upgrade
  after the v2 upgrade went through, and for a v2 store failing in the v3 upgrade.
\<close>

theorem upgrade_failure_rolls_back:
  "(upgrade_v2_body f tx = Inl (e, tx') \<longrightarrow> upgrade_v2 f tx = handleUpgradeError f tx' 2 e) \<and>
   (upgrade_v3_body f tx = Inl (e, tx') \<longrightarrow> upgrade_v3 f tx = handleUpgradeError f tx' 3 e) \<and>
   snd (handleUpgradeError f tx' v e) = Inl e \<and>
   (\<exists>d. fst (handleUpgradeError f tx' v e) = [d] \<and>
        dump_version (dialog_content d) = v \<and>
        dump_tables (dialog_content d) = map (\<lambda>n. (n, dumpTable f tx' n)) DUMP_TABLE_NAMES) \<and>
   (idb_version s = 1 \<and>
    upgrade_v2 (flt 2) (create_tables (decl_stores version_2) (idb_tables s)) = (ds, Inl e)
      \<longrightarrow> open_db flt s = (ds, Inl e, s)) \<and>
   (idb_version s = 1 \<and>
    upgrade_v2 (flt 2) (create_tables (decl_stores version_2) (idb_tables s)) = ([], Inr tx2) \<and>
    upgrade_v3 (flt 3) (create_tables (decl_stores version_3)
                          (drop_tables (decl_stores version_2) tx2)) = (ds, Inl e)
      \<longrightarrow> open_db flt s = (ds, Inl e, s)) \<and>
   (idb_version s = 2 \<and>
    upgrade_v3 (flt 3) (create_tables (decl_stores version_3) (idb_tables s)) = (ds, Inl e)
      \<longrightarrow> open_db flt s = (ds, Inl e, s))"
proof (intro conjI impI)
  show "upgrade_v2 f tx = handleUpgradeError f tx' 2 e" if "upgrade_v2_body f tx = Inl (e, tx')"
    using that by (simp add: upgrade_v2_def)
  show "upgrade_v3 f tx = handleUpgradeError f tx' 3 e" if "upgrade_v3_body f tx = Inl (e, tx')"
    using that by (simp add: upgrade_v3_def)
  show "snd (handleUpgradeError f tx' v e) = Inl e"
    by (simp add: handler_dump)
  show "\<exists>d. fst (handleUpgradeError f tx' v e) = [d] \<and>
        dump_version (dialog_content d) = v \<and>
        dump_tables (dialog_content d) = map (\<lambda>n. (n, dumpTable f tx' n)) DUMP_TABLE_NAMES"
    by (simp add: handler_dump)
  show "open_db flt s = (ds, Inl e, s)"
    if "idb_version s = 1 \<and>
      upgrade_v2 (flt 2) (create_tables (decl_stores version_2) (idb_tables s)) = (ds, Inl e)"
    using that open_v1_fails_at_v2 by blast
  show "open_db flt s = (ds, Inl e, s)"
    if "idb_version s = 1 \<and>
      upgrade_v2 (flt 2) (create_tables (decl_stores version_2) (idb_tables s)) = ([], Inr tx2) \<and>
      upgrade_v3 (flt 3) (create_tables (decl_stores version_3)
                          (drop_tables (decl_stores version_2) tx2)) = (ds, Inl e)"
    using that open_v1_fails_at_v3 by blast
  show "open_db flt s = (ds, Inl e, s)"
    if "idb_version s = 2 \<and>
      upgrade_v3 (flt 3) (create_tables (decl_stores version_3) (idb_tables s)) = (ds, Inl e)"
    using that open_v2_fails_at_v3 by blast
qed

lemma show_nat_2: "show_nat 2 = ''2''"
  by code_simp

theorem upgrade_failure_rolls_back_witness:
  "idb_version store_v1_example = 1 \<and>
   upgrade_v2_body (quota_fault 2 2 2)
       (create_tables (decl_stores version_2) (idb_tables store_v1_example)) =
     Inl (EngineFault ''QuotaExceededError'',
          [(''recordings'', [row_v1_example]), (''recordingMetadata'', [metadata_v2_example]),
           (''recordingBlobs'', [])]) \<and>
   upgrade_v2 (quota_fault 2 2 2)
       (create_tables (decl_stores version_2) (idb_tables store_v1_example)) =
     ([dialog_example], Inl (EngineFault ''QuotaExceededError'')) \<and>
   open_db (quota_fault 2 2) store_v1_example =
     ([dialog_example], Inl (EngineFault ''QuotaExceededError''), store_v1_example)"
proof -
  let ?tx0 = "create_tables (decl_stores version_2) (idb_tables store_v1_example)"
  let ?tx' = "[(''recordings'', [row_v1_example]), (''recordingMetadata'', [metadata_v2_example]),
               (''recordingBlobs'', [])]"
  let ?e = "EngineFault ''QuotaExceededError''"
  have v: "idb_version store_v1_example = 1"
    by (simp add: store_v1_example_def)
  have body: "upgrade_v2_body (quota_fault 2 2 2) ?tx0 = Inl (?e, ?tx')"
    by (simp add: upgrade_v2_body_def tx_toArray_def tx_bulkAdd_def engine_def quota_fault_def
          create_tables_def version_2_def store_v1_example_def row_v1_example_def
          metadata_v2_example_def get_prop_def row_key_def row_id_def)
  have dump: "handleUpgradeError (quota_fault 2 2 2) ?tx' 2 ?e = ([dialog_example], Inl ?e)"
    by (simp add: handleUpgradeError_def DUMP_TABLE_NAMES_def dumpTable_def tx_toArray_def
          engine_def quota_fault_def dialog_example_def show_nat_2)
  note h = upgrade_failure_rolls_back
             [where f = "quota_fault 2 2 2" and tx = ?tx0 and e = ?e and tx' = ?tx'
                and flt = "quota_fault 2 2" and s = store_v1_example and ds = "[dialog_example]"]
  from h body dump have up: "upgrade_v2 (quota_fault 2 2 2) ?tx0 = ([dialog_example], Inl ?e)"
    by simp
  with h v have "open_db (quota_fault 2 2) store_v1_example =
      ([dialog_example], Inl ?e, store_v1_example)"
    by blast
  with v body up show ?thesis by blast
qed

subsection \<open>Opening a store of an older schema\<close>

lemma map_of_filter_key:
  "map_of (filter (\<lambda>(k, v). k \<noteq> b) r) k = (if k = b then None else map_of r k)"
  by (induction r) auto

lemma get_prop_strip:
  "k \<noteq> b \<Longrightarrow> get_prop (filter (\<lambda>(k, v). k \<noteq> b) r) k = get_prop r k"
  by (simp add: get_prop_def map_of_filter_key)

lemma get_prop_update:
  "get_prop (AList.update b v r) k = (if k = b then v else get_prop r k)"
  by (simp add: get_prop_def update_conv')

lemma row_key_strip: "row_key (filter (\<lambda>(k, v). k \<noteq> ''blob'') r) = row_key r"
  by (simp add: row_key_def get_prop_strip)

lemma row_id_strip: "row_id (filter (\<lambda>(k, v). k \<noteq> ''blob'') r) = row_id r"
  by (simp add: row_id_def row_key_strip)

lemma row_key_blob_row: "row_key [(''id'', get_prop r ''id''), (''blob'', v)] = row_key r"
  by (simp add: row_key_def get_prop_def)

lemma row_id_blob_row: "row_id [(''id'', get_prop r ''id''), (''blob'', v)] = row_id r"
  by (simp add: row_id_def row_key_blob_row)

lemma row_key_v1_to_v3: "row_key (v1_to_v3_row r) = row_key r"
  by (simp add: v1_to_v3_row_def row_key_def get_prop_update get_prop_strip)

lemma row_id_v1_to_v3: "row_id (v1_to_v3_row r) = row_id r"
  by (simp add: row_id_def row_key_v1_to_v3)

lemma insort_key_snoc:
  "\<forall>y\<in>set xs. f y < f x \<Longrightarrow> insort_key f x xs = xs @ [x]"
  by (induction xs) auto

lemma bulkAdd_rows_in_order:
  assumes "list_all (\<lambda>r. row_key r \<noteq> None) rs"
    and "sorted (map row_id (t @ rs))"
    and "distinct (map row_id (t @ rs))"
  shows "bulkAdd_rows rs t = (t @ rs, 0)"
  using assms
proof (induction rs arbitrary: t)
  case Nil
  then show ?case by simp
next
  case (Cons r rs)
  from Cons.prems(3) have fresh: "row_id r \<notin> set (map row_id t)"
    by auto
  have "\<forall>y\<in>set t. row_id y < row_id r"
  proof
    fix y assume y: "y \<in> set t"
    from Cons.prems(2) y have "row_id y \<le> row_id r"
      by (auto simp: sorted_append)
    moreover have "row_id y \<in> set (map row_id t)" using y by simp
    with fresh have "row_id y \<noteq> row_id r" by metis
    ultimately show "row_id y < row_id r" by simp
  qed
  then have ins: "insort_key row_id r t = t @ [r]"
    by (rule insort_key_snoc)
  from Cons.prems have "bulkAdd_rows rs (t @ [r]) = ((t @ [r]) @ rs, 0)"
    by (intro Cons.IH) simp_all
  moreover from Cons.prems(1) have "row_key r \<noteq> None" by simp
  ultimately show ?case using fresh ins by auto
qed

lemma bulkAdd_rows_empty:
  assumes "list_all (\<lambda>r. row_key r \<noteq> None) rs"
    and "sorted (map row_id rs)" and "distinct (map row_id rs)"
  shows "bulkAdd_rows rs [] = (rs, 0)"
  using bulkAdd_rows_in_order [of rs "[]"] assms by simp

lemma find_blob_row:
  assumes "list_all (\<lambda>r. row_key r \<noteq> None) rows"
    and "distinct (map row_id rows)" and "r \<in> set rows"
  shows "find (\<lambda>b. get_prop b ''id'' = get_prop r ''id'')
           (map (\<lambda>r. [(''id'', get_prop r ''id''), (''blob'', get_prop r ''blob'')]) rows) =
         Some [(''id'', get_prop r ''id''), (''blob'', get_prop r ''blob'')]"
  using assms
proof (induction rows)
  case Nil
  then show ?case by simp
next
  case (Cons a rows)
  have bid: "get_prop [(''id'', x), (''blob'', y)] ''id'' = x" for x y
    by (simp add: get_prop_def)
  show ?case
  proof (cases "get_prop a ''id'' = get_prop r ''id''")
    case True
    have "r = a"
    proof (rule ccontr)
      assume "r \<noteq> a"
      with Cons.prems(3) have "r \<in> set rows" by simp
      moreover from True have "row_id a = row_id r"
        by (simp add: row_id_def row_key_def)
      ultimately show False using Cons.prems(2) by force
    qed
    then show ?thesis by (simp add: bid)
  next
    case False
    with Cons.prems(3) have "r \<in> set rows" by auto
    with Cons.prems Cons.IH False show ?thesis by (simp add: bid)
  qed
qed

lemma open_v1_store_general:
  assumes v: "idb_version s = 1"
    and t: "idb_tables s = [(''recordings'', rows)]"
    and keys: "list_all (\<lambda>r. row_key r \<noteq> None) rows"
    and srt: "sorted (map row_id rows)"
    and dst: "distinct (map row_id rows)"
  shows "open_db no_faults s =
           ([], Inr (), \<lparr>idb_version = 3,
                          idb_tables = [(''recordings'', map v1_to_v3_row rows)]\<rparr>)"
proof -
  let ?strip = "\<lambda>recording. filter (\<lambda>(k, v). k \<noteq> ''blob'') recording"
  let ?blob = "\<lambda>r. [(''id'', get_prop r ''id''), (''blob'', get_prop r ''blob'')]"
  let ?metadata = "map ?strip rows"
  let ?blobs = "map ?blob rows"
  have km: "list_all (\<lambda>r. row_key r \<noteq> None) ?metadata"
    using keys by (simp add: list_all_iff row_key_strip)
  have kb: "list_all (\<lambda>r. row_key r \<noteq> None) ?blobs"
    using keys by (simp add: list_all_iff row_key_blob_row)
  have im: "map row_id ?metadata = map row_id rows"
    by (simp add: row_id_strip)
  have ib: "map row_id ?blobs = map row_id rows"
    by (simp add: row_id_blob_row)
  have addm: "bulkAdd_rows ?metadata [] = (?metadata, 0)"
    using km srt dst by (intro bulkAdd_rows_empty) (simp_all only: im)
  have addb: "bulkAdd_rows ?blobs [] = (?blobs, 0)"
    using kb srt dst by (intro bulkAdd_rows_empty) (simp_all only: ib)
  have v2: "upgrade_v2 (no_faults 2)
              [(''recordings'', rows), (''recordingMetadata'', []), (''recordingBlobs'', [])] =
            ([], Inr [(''recordings'', rows), (''recordingMetadata'', ?metadata),
                      (''recordingBlobs'', ?blobs)])"
    using addm addb
    by (simp add: upgrade_v2_def upgrade_v2_body_def tx_toArray_def tx_bulkAdd_def engine_def
          no_faults_def)
  let ?merged = "map (\<lambda>record.
                        (let blob = (case find (\<lambda>b. get_prop b ''id'' = get_prop record ''id'') ?blobs of
                                       Some b \<Rightarrow> get_prop b ''blob''
                                     | None \<Rightarrow> JUndefined)
                         in AList.update ''blob'' blob record))
                   ?metadata"
  have merged: "?merged = map v1_to_v3_row rows"
  proof -
    have "(let blob = (case find (\<lambda>b. get_prop b ''id'' = get_prop (?strip r) ''id'') ?blobs of
                         Some b \<Rightarrow> get_prop b ''blob''
                       | None \<Rightarrow> JUndefined)
           in AList.update ''blob'' blob (?strip r)) = v1_to_v3_row r" if "r \<in> set rows" for r
    proof -
      have "find (\<lambda>b. get_prop b ''id'' = get_prop r ''id'') ?blobs = Some (?blob r)"
        using keys dst that by (rule find_blob_row)
      moreover have "get_prop (?blob r) ''blob'' = get_prop r ''blob''"
        by (simp add: get_prop_def)
      ultimately show ?thesis
        by (simp add: v1_to_v3_row_def get_prop_strip)
    qed
    then show ?thesis by simp
  qed
  have k3: "list_all (\<lambda>r. row_key r \<noteq> None) (map v1_to_v3_row rows)"
    using keys by (simp add: list_all_iff row_key_v1_to_v3)
  have i3: "map row_id (map v1_to_v3_row rows) = map row_id rows"
    by (simp add: row_id_v1_to_v3)
  have add3: "bulkAdd_rows (map v1_to_v3_row rows) [] = (map v1_to_v3_row rows, 0)"
    using k3 srt dst by (intro bulkAdd_rows_empty) (simp_all only: i3)
  have add3': "bulkAdd_rows ?merged [] = (map v1_to_v3_row rows, 0)"
    using add3 by (simp only: merged)
  have v3: "upgrade_v3 (no_faults 3)
              [(''recordingMetadata'', ?metadata), (''recordingBlobs'', ?blobs), (''recordings'', [])] =
            ([], Inr [(''recordingMetadata'', ?metadata), (''recordingBlobs'', ?blobs),
                      (''recordings'', map v1_to_v3_row rows)])"
    using add3'
    by (simp add: upgrade_v3_def upgrade_v3_body_def tx_toArray_def tx_bulkAdd_def engine_def
          no_faults_def Let_def)
  show ?thesis
    using v t v2 v3
    by (simp add: open_db_def versions_above_1 target_version_versions version_fields)
       (simp add: version_2_def version_3_def create_tables_def drop_tables_def)
qed

lemma has_prop_v1_to_v3: "has_prop (v1_to_v3_row r) k \<longleftrightarrow> k = ''blob'' \<or> has_prop r k"
  by (simp add: has_prop_def v1_to_v3_row_def update_conv' map_of_filter_key)

lemma open_v1_store_rows:
  assumes "idb_version s = 1"
    and "idb_tables s = [(''recordings'', rows)]"
    and "list_all (\<lambda>r. row_key r \<noteq> None) rows"
    and "sorted (map row_id rows)"
    and "distinct (map row_id rows)"
  shows "\<exists>rows'. open_db no_faults s =
                  ([], Inr (), \<lparr>idb_version = 3, idb_tables = [(''recordings'', rows')]\<rparr>) \<and>
                map row_id rows' = map row_id rows \<and>
                list_all2 (\<lambda>r' r. has_prop r' ''timestamp'' = has_prop r ''timestamp'' \<and>
                                  has_prop r' ''createdAt'' = has_prop r ''createdAt'' \<and>
                                  has_prop r' ''updatedAt'' = has_prop r ''updatedAt'')
                  rows' rows"
proof -
  have "map row_id (map v1_to_v3_row rows) = map row_id rows"
    by (simp add: row_id_v1_to_v3)
  moreover have "list_all2 (\<lambda>r' r. has_prop r' ''timestamp'' = has_prop r ''timestamp'' \<and>
                                  has_prop r' ''createdAt'' = has_prop r ''createdAt'' \<and>
                                  has_prop r' ''updatedAt'' = has_prop r ''updatedAt'')
                  (map v1_to_v3_row rows) rows"
    by (simp add: list_all2_map1 list_all2_same has_prop_v1_to_v3)
  ultimately show ?thesis
    using open_v1_store_general [OF assms] by blast
qed

text \<open>
  C1. The constructor registers versions 1, 2 and 3 and no version 4, although
  \<^verbatim>\<open>DB_VERSION\<close> is 4 and the row type is the v4 one. Opening a v1 store with no
  fault runs the v2 and the v3 upgrade and stops at version 3, with one row per original
  recording; a row has \<^verbatim>\<open>timestamp\<close>, \<^verbatim>\<open>createdAt\<close> or \<^verbatim>\<open>updatedAt\<close> exactly when
  the original had it (lemma \<open>open_v1_store_rows\<close>). On the example v1 store: the
  version is 3, there is one row for the one original recording, it still has
  \<^verbatim>\<open>timestamp\<close>, and it has neither \<^verbatim>\<open>createdAt\<close> nor \<^verbatim>\<open>updatedAt\<close>.
\<close>

theorem open_v1_store_stops_at_v3:
  "open_db no_faults store_v1_example =
     ([], Inr (), \<lparr>idb_version = 3, idb_tables = [(''recordings'', [row_v3_example])]\<rparr>) \<and>
   DB_VERSION = 4 \<and>
   target_version versions = 3 \<and>
   has_prop row_v3_example ''timestamp'' \<and>
   \<not> has_prop row_v3_example ''createdAt'' \<and>
   \<not> has_prop row_v3_example ''updatedAt''"
proof -
  have "open_db no_faults store_v1_example =
     ([], Inr (), \<lparr>idb_version = 3, idb_tables = [(''recordings'', [row_v3_example])]\<rparr>)"
    by (simp add: open_db_def target_version_def versions_def version_1_def version_2_def
          version_3_def store_v1_example_def row_v1_example_def row_v3_example_def no_faults_def
          create_tables_def drop_tables_def upgrade_v2_def upgrade_v2_body_def upgrade_v3_def
          upgrade_v3_body_def tx_toArray_def tx_bulkAdd_def engine_def get_prop_def row_key_def
          row_id_def)
  moreover have "target_version versions = 3"
    by (simp add: target_version_def versions_def version_1_def version_2_def version_3_def)
  moreover have "has_prop row_v3_example ''timestamp'' \<and>
      \<not> has_prop row_v3_example ''createdAt'' \<and> \<not> has_prop row_v3_example ''updatedAt''"
    by (simp add: has_prop_def row_v3_example_def)
  ultimately show ?thesis by (simp add: DB_VERSION_def)
qed

end
